theory Spec2Isabelle
  imports Complex_Main
begin

unbundle bit_operations_syntax

section \<open>Python values\<close>

text \<open>
  The interpreter and the spooler of \<^verbatim>\<open>BaseDevice.py\<close> are dynamically typed: a queue
  element, a command and a command argument can be any Python object. The values the code
  distinguishes are an integer (\<^verbatim>\<open>isinstance(x, int)\<close>), a tuple
  (\<^verbatim>\<open>isinstance(x, tuple)\<close>), an object with a \<^verbatim>\<open>generate()\<close> method, a callable, an
  iterator (\<^verbatim>\<open>next(x)\<close>) and \<^verbatim>\<open>None\<close>.

  \<^item> \<open>PyFloat\<close> carries a real number: the only float operations of the code are the
    comparisons with \<^verbatim>\<open>1000.0\<close> and \<^verbatim>\<open>0\<close>, exact on every float that is a number.
  \<^item> \<open>PyCallable r\<close> is a callable whose call returns \<open>r\<close> and leaves the interpreter
    as it is; \<open>PyGenerate r\<close> is an object, not callable, whose \<^verbatim>\<open>generate()\<close> does the
    same.
  \<^item> \<open>PyFunction n\<close> is a callable object, of identity \<open>n\<close>, that can reach the
    interpreter: a bound method of it, or a closure over it. What its call does is given
    by the table of callables (section State).
  \<^item> \<open>PyIter xs\<close> is an iterator (a running generator) that still yields \<open>xs\<close>.
  \<^item> \<open>PyObject n\<close> is any other object: no \<^verbatim>\<open>generate\<close>, not callable, not a number.
\<close>

datatype pyval =
    PyNone
  | PyInt int
  | PyFloat real
  | PyStr string
  | PyTuple "pyval list"
  | PyCallable pyval
  | PyFunction nat
  | PyGenerate pyval
  | PyIter "pyval list"
  | PyObject nat

datatype exc = AttributeError | IndexError | TypeError | ValueError

text \<open>\<^verbatim>\<open>v > r\<close> and \<^verbatim>\<open>v <= r\<close> against a float constant: a TypeError unless \<open>v\<close> is a number.\<close>

fun py_gt :: "pyval \<Rightarrow> real \<Rightarrow> exc + bool" where
  "py_gt (PyInt i) r = Inr (of_int i > r)"
| "py_gt (PyFloat x) r = Inr (x > r)"
| "py_gt _ r = Inl TypeError"

fun py_le :: "pyval \<Rightarrow> real \<Rightarrow> exc + bool" where
  "py_le (PyInt i) r = Inr (of_int i \<le> r)"
| "py_le (PyFloat x) r = Inr (x \<le> r)"
| "py_le _ r = Inl TypeError"

text \<open>\<^verbatim>\<open>v == n\<close> against an integer constant (a float equal to the integer compares equal).\<close>

fun py_eq_int :: "pyval \<Rightarrow> int \<Rightarrow> bool" where
  "py_eq_int (PyInt i) n = (i = n)"
| "py_eq_int (PyFloat x) n = (x = of_int n)"
| "py_eq_int _ n = False"

text \<open>\<^verbatim>\<open>x, y = values\<close> and \<^verbatim>\<open>values[0]\<close>, \<^verbatim>\<open>values[1]\<close>.\<close>

definition unpack2 :: "pyval list \<Rightarrow> exc + (pyval \<times> pyval)" where
  "unpack2 vs = (case vs of [x, y] \<Rightarrow> Inr (x, y) | _ \<Rightarrow> Inl ValueError)"

definition item :: "pyval list \<Rightarrow> nat \<Rightarrow> exc + pyval" where
  "item vs i = (if i < length vs then Inr (vs ! i) else Inl IndexError)"

section \<open>Constants\<close>

definition INTERPRETER_STATE_RAPID :: int where "INTERPRETER_STATE_RAPID = 0"
definition INTERPRETER_STATE_FINISH :: int where "INTERPRETER_STATE_FINISH = 1"
definition INTERPRETER_STATE_PROGRAM :: int where "INTERPRETER_STATE_PROGRAM = 2"
definition INTERPRETER_STATE_MODECHANGE :: int where "INTERPRETER_STATE_MODECHANGE = 3"

text \<open>
  \<^verbatim>\<open>LaserCommandConstants\<close> is imported by the module and is not among the sources, so
  the integer values of the \<^verbatim>\<open>COMMAND_*\<close> and \<^verbatim>\<open>REALTIME_*\<close> constants are unknown. The
  constants are named here, and every function that compares against them takes the
  table of their values as its first argument.
\<close>

datatype command_name =
    COMMAND_LASER_OFF | COMMAND_LASER_ON | COMMAND_LASER_DISABLE | COMMAND_LASER_ENABLE
  | COMMAND_CUT | COMMAND_MOVE | COMMAND_JOG | COMMAND_JOG_SWITCH | COMMAND_JOG_FINISH
  | COMMAND_HOME | COMMAND_LOCK | COMMAND_UNLOCK | COMMAND_PLOT | COMMAND_PLOT_START
  | COMMAND_SET_SPEED | COMMAND_SET_POWER | COMMAND_SET_PPI | COMMAND_SET_PWM
  | COMMAND_SET_STEP | COMMAND_SET_OVERSCAN | COMMAND_SET_ACCELERATION
  | COMMAND_SET_D_RATIO | COMMAND_SET_DIRECTION | COMMAND_SET_INCREMENTAL
  | COMMAND_SET_ABSOLUTE | COMMAND_SET_POSITION | COMMAND_MODE_RAPID
  | COMMAND_MODE_PROGRAM | COMMAND_MODE_FINISHED | COMMAND_WAIT | COMMAND_WAIT_FINISH
  | COMMAND_BEEP | COMMAND_FUNCTION | COMMAND_SIGNAL

datatype realtime_name =
    REALTIME_PAUSE | REALTIME_RESUME | REALTIME_RESET | REALTIME_STATUS
  | REALTIME_SAFETY_DOOR | REALTIME_JOG_CANCEL | REALTIME_SPEED_PERCENT | REALTIME_SPEED
  | REALTIME_RAPID_PERCENT | REALTIME_RAPID | REALTIME_POWER_PERCENT | REALTIME_POWER
  | REALTIME_OVERSCAN | REALTIME_LASER_DISABLE | REALTIME_LASER_ENABLE
  | REALTIME_FLOOD_COOLANT | REALTIME_MIST_COOLANT

type_synonym command_table = "command_name \<Rightarrow> int"
type_synonym realtime_table = "realtime_name \<Rightarrow> int"

section \<open>State\<close>

text \<open>
  A hold is a zero-argument callable. \<open>Pred i f k\<close> is an external predicate: \<open>i\<close> is the
  identity of the object, \<open>f n\<close> is what its \<open>n\<close>-th evaluation returns (counting from 0)
  and \<open>k\<close> is the number of evaluations so far. \<open>PipeHold\<close> is the closure
  \<^verbatim>\<open>lambda: len(self.pipe) != 0\<close> that \<^verbatim>\<open>wait_finish\<close> appends; the class never assigns
  \<^verbatim>\<open>self.pipe\<close>, so evaluating it raises AttributeError.
\<close>

datatype hold_fn = Pred nat "nat \<Rightarrow> bool" nat | PipeHold

text \<open>
  What \<^verbatim>\<open>context.signal(name, *args)\<close> has published, oldest first. \<open>Status x y speed power\<close>
  is the signal \<^verbatim>\<open>'interpreter;status'\<close>, whose payload is the string formatted from the
  four values.
\<close>

datatype event = Signal pyval "pyval list" | Status pyval pyval pyval pyval

text \<open>
  The kernel context with the spooler registered on it: the settings the interpreter
  reads and writes, the shutdown flag \<^verbatim>\<open>quit\<close>, whether \<^verbatim>\<open>stop()\<close> was called, the signals
  published, and the spooler's \<^verbatim>\<open>_queue\<close>.
\<close>

record kernel_context =
  current_x :: pyval
  current_y :: pyval
  opt_rapid_between :: bool
  opt_jog_mode :: int
  opt_jog_minimum :: int
  quit :: bool
  stopped :: bool
  signals :: "event list"
  queue :: "pyval list"

text \<open>\<^verbatim>\<open>LaserSettings\<close> (module \<^verbatim>\<open>CutCode\<close>, not among the sources): the fields the interpreter assigns.\<close>

record laser_settings =
  speed :: pyval
  power_setting :: pyval
  d_ratio :: pyval
  acceleration :: pyval
  raster_step :: pyval
  overscan :: pyval
  laser_enabled :: bool

text \<open>
  The fields of \<^verbatim>\<open>Interpreter\<close>. \<^verbatim>\<open>spooled_item\<close> is \<open>PyNone\<close> when no job is in flight.
  An entry of \<^verbatim>\<open>temp_holds\<close> is \<open>None\<close> where the loop of \<^verbatim>\<open>hold()\<close> has overwritten it and
  the list has not been rebuilt. \<^verbatim>\<open>__init__\<close> assigns \<^verbatim>\<open>self.jog\<close> and \<^verbatim>\<open>self.rapid\<close>, so on
  an instance \<^verbatim>\<open>self.jog\<close> is the integer setting and not the method of the same name.
  \<^verbatim>\<open>next_run\<close> exists once \<^verbatim>\<open>wait\<close> has assigned it.
\<close>

record interpreter =
  ctx :: kernel_context
  settings :: laser_settings
  spooled_item :: pyval
  holds :: "hold_fn list"
  temp_holds :: "hold_fn option list"
  state :: int
  properties :: int
  is_relative :: bool
  laser :: bool
  rapid :: bool
  jog :: int
  next_run :: "pyval option"

text \<open>
  The callables that reach the interpreter are external code, so their behaviour is a
  parameter: \<open>F n s\<close> is what calling the callable object \<open>n\<close> does when the interpreter is
  in state \<open>s\<close>, the exception it raises or the value it returns, together with the state
  it leaves. Every function that can call one takes the table as its first argument.
\<close>

type_synonym callables = "nat \<Rightarrow> interpreter \<Rightarrow> (exc + pyval) \<times> interpreter"

section \<open>Property register\<close>

definition set_prop :: "interpreter \<Rightarrow> int \<Rightarrow> interpreter" where
  "set_prop s m = s\<lparr>properties := properties s OR m\<rparr>"

definition unset_prop :: "interpreter \<Rightarrow> int \<Rightarrow> interpreter" where
  "unset_prop s m = s\<lparr>properties := properties s AND NOT m\<rparr>"

definition is_prop :: "interpreter \<Rightarrow> int \<Rightarrow> bool" where
  "is_prop s m = (properties s AND m \<noteq> 0)"

definition toggle_prop :: "interpreter \<Rightarrow> int \<Rightarrow> interpreter" where
  "toggle_prop s m = (if is_prop s m then unset_prop s m else set_prop s m)"

section \<open>Spooler\<close>

definition signal :: "kernel_context \<Rightarrow> pyval \<Rightarrow> pyval list \<Rightarrow> kernel_context" where
  "signal c name args = c\<lparr>signals := signals c @ [Signal name args]\<rparr>"

text \<open>\<^verbatim>\<open>peek\<close> returns \<^verbatim>\<open>None\<close> on an empty queue and the head otherwise.\<close>

definition peek :: "kernel_context \<Rightarrow> pyval" where
  "peek c = (if length (queue c) = 0 then PyNone else queue c ! 0)"

definition pop :: "kernel_context \<Rightarrow> pyval \<times> kernel_context" where
  "pop c =
     (if length (queue c) = 0 then (PyNone, c)
      else let queue_head = queue c ! 0;
               c1 = c\<lparr>queue := tl (queue c)\<rparr>
           in (queue_head, signal c1 (PyStr ''spooler;queue'') [PyInt (int (length (queue c1)))]))"

text \<open>\<^verbatim>\<open>job(*job)\<close>: one argument is appended as it is, several are appended as one tuple.\<close>

definition job :: "kernel_context \<Rightarrow> pyval list \<Rightarrow> kernel_context" where
  "job c args =
     (let c1 = (if length args = 1 then c\<lparr>queue := queue c @ args\<rparr>
                else c\<lparr>queue := queue c @ [PyTuple args]\<rparr>)
      in signal c1 (PyStr ''spooler;queue'') [PyInt (int (length (queue c1)))])"

definition job_if_idle :: "kernel_context \<Rightarrow> pyval \<Rightarrow> bool \<times> kernel_context" where
  "job_if_idle c element =
     (if length (queue c) = 0 then (True, job c [element]) else (False, c))"

definition clear_queue :: "kernel_context \<Rightarrow> kernel_context" where
  "clear_queue c =
     (let c1 = c\<lparr>queue := []\<rparr>
      in signal c1 (PyStr ''spooler;queue'') [PyInt (int (length (queue c1)))])"

section \<open>Command handlers\<close>

text \<open>
  A handler that cannot raise maps the state to the state. One that can returns the
  exception raised (if any) together with the state as the exception left it.
\<close>

type_synonym outcome = "exc option \<times> interpreter"

definition laser_off :: "interpreter \<Rightarrow> interpreter" where
  "laser_off s = s\<lparr>laser := False\<rparr>"

definition laser_on :: "interpreter \<Rightarrow> interpreter" where
  "laser_on s = s\<lparr>laser := True\<rparr>"

definition laser_disable :: "interpreter \<Rightarrow> interpreter" where
  "laser_disable s = s\<lparr>settings := (settings s)\<lparr>laser_enabled := False\<rparr>\<rparr>"

definition laser_enable :: "interpreter \<Rightarrow> interpreter" where
  "laser_enable s = s\<lparr>settings := (settings s)\<lparr>laser_enabled := True\<rparr>\<rparr>"

definition move :: "interpreter \<Rightarrow> pyval \<Rightarrow> pyval \<Rightarrow> interpreter" where
  "move s x y = s\<lparr>ctx := (ctx s)\<lparr>current_x := x, current_y := y\<rparr>\<rparr>"

definition cut :: "interpreter \<Rightarrow> pyval \<Rightarrow> pyval \<Rightarrow> interpreter" where
  "cut s x y = s\<lparr>ctx := (ctx s)\<lparr>current_x := x, current_y := y\<rparr>\<rparr>"

definition home :: "interpreter \<Rightarrow> interpreter" where
  "home s = s\<lparr>ctx := (ctx s)\<lparr>current_x := PyInt 0, current_y := PyInt 0\<rparr>\<rparr>"

definition ensure_rapid_mode :: "interpreter \<Rightarrow> interpreter" where
  "ensure_rapid_mode s =
     (if state s = INTERPRETER_STATE_RAPID then s
      else let s1 = s\<lparr>state := INTERPRETER_STATE_RAPID\<rparr>
           in s1\<lparr>ctx := signal (ctx s1) (PyStr ''interpreter;mode'') [PyInt (state s1)]\<rparr>)"

definition ensure_finished_mode :: "interpreter \<Rightarrow> interpreter" where
  "ensure_finished_mode s =
     (if state s = INTERPRETER_STATE_FINISH then s
      else let s1 = s\<lparr>state := INTERPRETER_STATE_FINISH\<rparr>
           in s1\<lparr>ctx := signal (ctx s1) (PyStr ''interpreter;mode'') [PyInt (state s1)]\<rparr>)"

definition ensure_program_mode :: "interpreter \<Rightarrow> interpreter" where
  "ensure_program_mode s =
     (if state s = INTERPRETER_STATE_PROGRAM then s
      else let s1 = s\<lparr>state := INTERPRETER_STATE_PROGRAM\<rparr>
           in s1\<lparr>ctx := signal (ctx s1) (PyStr ''interpreter;mode'') [PyInt (state s1)]\<rparr>)"

definition set_speed :: "interpreter \<Rightarrow> pyval \<Rightarrow> interpreter" where
  "set_speed s v = s\<lparr>settings := (settings s)\<lparr>speed := v\<rparr>\<rparr>"

definition store_power :: "interpreter \<Rightarrow> pyval \<Rightarrow> interpreter" where
  "store_power s v = s\<lparr>settings := (settings s)\<lparr>power_setting := v\<rparr>\<rparr>"

text \<open>
  \<^verbatim>\<open>set_power\<close> and \<^verbatim>\<open>set_ppi\<close> have the same body: store, then the two comparisons on
  \<^verbatim>\<open>self.settings.power\<close>, each of which raises TypeError on a value that is not a number.
\<close>

definition set_power :: "interpreter \<Rightarrow> pyval \<Rightarrow> outcome" where
  "set_power s pw =
     (let s1 = store_power s pw in
      case py_gt (power_setting (settings s1)) 1000 of
        Inl e \<Rightarrow> (Some e, s1)
      | Inr too_high \<Rightarrow>
          let s2 = (if too_high then store_power s1 (PyFloat 1000) else s1) in
          (case py_le (power_setting (settings s2)) 0 of
             Inl e \<Rightarrow> (Some e, s2)
           | Inr too_low \<Rightarrow> (None, if too_low then store_power s2 (PyFloat 0) else s2)))"

definition set_ppi :: "interpreter \<Rightarrow> pyval \<Rightarrow> outcome" where
  "set_ppi s pw =
     (let s1 = store_power s pw in
      case py_gt (power_setting (settings s1)) 1000 of
        Inl e \<Rightarrow> (Some e, s1)
      | Inr too_high \<Rightarrow>
          let s2 = (if too_high then store_power s1 (PyFloat 1000) else s1) in
          (case py_le (power_setting (settings s2)) 0 of
             Inl e \<Rightarrow> (Some e, s2)
           | Inr too_low \<Rightarrow> (None, if too_low then store_power s2 (PyFloat 0) else s2)))"

text \<open>
  \<^verbatim>\<open>set_pwm\<close> stores the value and then reads \<^verbatim>\<open>self.power\<close>, an attribute the class does not
  have (the other two read \<^verbatim>\<open>self.settings.power\<close>): AttributeError, after the store.
\<close>

definition set_pwm :: "interpreter \<Rightarrow> pyval \<Rightarrow> outcome" where
  "set_pwm s pw = (let s1 = store_power s pw in (Some AttributeError, s1))"

definition set_d_ratio :: "interpreter \<Rightarrow> pyval \<Rightarrow> interpreter" where
  "set_d_ratio s v = s\<lparr>settings := (settings s)\<lparr>d_ratio := v\<rparr>\<rparr>"

definition set_acceleration :: "interpreter \<Rightarrow> pyval \<Rightarrow> interpreter" where
  "set_acceleration s v = s\<lparr>settings := (settings s)\<lparr>acceleration := v\<rparr>\<rparr>"

definition set_step :: "interpreter \<Rightarrow> pyval \<Rightarrow> interpreter" where
  "set_step s v = s\<lparr>settings := (settings s)\<lparr>raster_step := v\<rparr>\<rparr>"

definition set_overscan :: "interpreter \<Rightarrow> pyval \<Rightarrow> interpreter" where
  "set_overscan s v = s\<lparr>settings := (settings s)\<lparr>overscan := v\<rparr>\<rparr>"

definition set_incremental :: "interpreter \<Rightarrow> interpreter" where
  "set_incremental s = s\<lparr>is_relative := True\<rparr>"

definition set_absolute :: "interpreter \<Rightarrow> interpreter" where
  "set_absolute s = s\<lparr>is_relative := False\<rparr>"

definition set_position :: "interpreter \<Rightarrow> pyval \<Rightarrow> pyval \<Rightarrow> interpreter" where
  "set_position s x y = s\<lparr>ctx := (ctx s)\<lparr>current_x := x, current_y := y\<rparr>\<rparr>"

definition wait :: "interpreter \<Rightarrow> pyval \<Rightarrow> interpreter" where
  "wait s t = s\<lparr>next_run := Some t\<rparr>"

definition wait_finish :: "interpreter \<Rightarrow> interpreter" where
  "wait_finish s = s\<lparr>temp_holds := temp_holds s @ [Some PipeHold]\<rparr>"

definition reset :: "interpreter \<Rightarrow> interpreter" where
  "reset s =
     (let s1 = s\<lparr>spooled_item := PyNone\<rparr>;
          s2 = s1\<lparr>ctx := clear_queue (ctx s1)\<rparr>;
          s3 = s2\<lparr>spooled_item := PyNone\<rparr>
      in s3\<lparr>temp_holds := []\<rparr>)"

text \<open>\<^verbatim>\<open>"%f" % v\<close> and \<^verbatim>\<open>"%d" % v\<close> raise TypeError unless \<open>v\<close> is a number.\<close>

fun is_number :: "pyval \<Rightarrow> bool" where
  "is_number (PyInt i) = True"
| "is_number (PyFloat x) = True"
| "is_number _ = False"

definition status :: "interpreter \<Rightarrow> outcome" where
  "status s =
     (let x = current_x (ctx s); y = current_y (ctx s);
          sp = speed (settings s); pw = power_setting (settings s)
      in if is_number x \<and> is_number y \<and> is_number sp \<and> is_number pw
         then (None, s\<lparr>ctx := (ctx s)\<lparr>signals := signals (ctx s) @ [Status x y sp pw]\<rparr>\<rparr>)
         else (Some TypeError, s))"

section \<open>Queued command dispatch\<close>

text \<open>
  The \<^verbatim>\<open>if\<close>/\<^verbatim>\<open>elif\<close> chain inside the \<^verbatim>\<open>try\<close> of \<^verbatim>\<open>command\<close>, in the source's order.
  \<^item> \<^verbatim>\<open>lock_rail\<close>, \<^verbatim>\<open>unlock_rail\<close>, \<^verbatim>\<open>plot_plot\<close>, \<^verbatim>\<open>plot_start\<close> and \<^verbatim>\<open>set_directions\<close> are
    not methods of the class: looking the method up raises AttributeError before any
    argument is evaluated.
  \<^item> \<^verbatim>\<open>self.jog\<close> is the integer assigned in \<^verbatim>\<open>__init__\<close>; calling it raises TypeError,
    after \<^verbatim>\<open>x, y = values\<close>.
  \<^item> The beep acts outside the interpreter's state.
  \<^item> \<^verbatim>\<open>values\<close> is always a tuple, so \<^verbatim>\<open>isinstance(values, str)\<close> is false.
\<close>

text \<open>
  The body of the \<^verbatim>\<open>COMMAND_FUNCTION\<close> branch: \<^verbatim>\<open>values[0]\<close> is called when there is one
  and it is callable, and what the call returns is dropped.
\<close>

definition run_function :: "callables \<Rightarrow> interpreter \<Rightarrow> pyval list \<Rightarrow> outcome" where
  "run_function F s values =
     (if 1 \<le> length values then
        (case values ! 0 of
           PyFunction n \<Rightarrow> (case F n s of (Inl e, s') \<Rightarrow> (Some e, s') | (Inr r, s') \<Rightarrow> (None, s'))
         | _ \<Rightarrow> (None, s))
      else (None, s))"

definition dispatch :: "callables \<Rightarrow> command_table \<Rightarrow> interpreter \<Rightarrow> int \<Rightarrow> pyval list \<Rightarrow> outcome" where
  "dispatch F K s c values =
    (if c = K COMMAND_LASER_OFF then (None, laser_off s)
     else if c = K COMMAND_LASER_ON then (None, laser_on s)
     else if c = K COMMAND_LASER_DISABLE then (None, laser_disable s)
     else if c = K COMMAND_LASER_ENABLE then (None, laser_enable s)
     else if c = K COMMAND_CUT then
       (case unpack2 values of Inl e \<Rightarrow> (Some e, s) | Inr (x, y) \<Rightarrow> (None, cut s x y))
     else if c = K COMMAND_MOVE then
       (case unpack2 values of Inl e \<Rightarrow> (Some e, s) | Inr (x, y) \<Rightarrow> (None, move s x y))
     else if c = K COMMAND_JOG then
       (case unpack2 values of Inl e \<Rightarrow> (Some e, s) | Inr (x, y) \<Rightarrow> (Some TypeError, s))
     else if c = K COMMAND_JOG_SWITCH then
       (case unpack2 values of Inl e \<Rightarrow> (Some e, s) | Inr (x, y) \<Rightarrow> (Some TypeError, s))
     else if c = K COMMAND_JOG_FINISH then
       (case unpack2 values of Inl e \<Rightarrow> (Some e, s) | Inr (x, y) \<Rightarrow> (Some TypeError, s))
     else if c = K COMMAND_HOME then (None, home s)
     else if c = K COMMAND_LOCK then (Some AttributeError, s)
     else if c = K COMMAND_UNLOCK then (Some AttributeError, s)
     else if c = K COMMAND_PLOT then (Some AttributeError, s)
     else if c = K COMMAND_PLOT_START then (Some AttributeError, s)
     else if c = K COMMAND_SET_SPEED then
       (case item values 0 of Inl e \<Rightarrow> (Some e, s) | Inr v \<Rightarrow> (None, set_speed s v))
     else if c = K COMMAND_SET_POWER then
       (case item values 0 of Inl e \<Rightarrow> (Some e, s) | Inr v \<Rightarrow> set_power s v)
     else if c = K COMMAND_SET_PPI then
       (case item values 0 of Inl e \<Rightarrow> (Some e, s) | Inr v \<Rightarrow> set_ppi s v)
     else if c = K COMMAND_SET_PWM then
       (case item values 0 of Inl e \<Rightarrow> (Some e, s) | Inr v \<Rightarrow> set_pwm s v)
     else if c = K COMMAND_SET_STEP then
       (case item values 0 of Inl e \<Rightarrow> (Some e, s) | Inr v \<Rightarrow> (None, set_step s v))
     else if c = K COMMAND_SET_OVERSCAN then
       (case item values 0 of Inl e \<Rightarrow> (Some e, s) | Inr v \<Rightarrow> (None, set_overscan s v))
     else if c = K COMMAND_SET_ACCELERATION then
       (case item values 0 of Inl e \<Rightarrow> (Some e, s) | Inr v \<Rightarrow> (None, set_acceleration s v))
     else if c = K COMMAND_SET_D_RATIO then
       (case item values 0 of Inl e \<Rightarrow> (Some e, s) | Inr v \<Rightarrow> (None, set_d_ratio s v))
     else if c = K COMMAND_SET_DIRECTION then (Some AttributeError, s)
     else if c = K COMMAND_SET_INCREMENTAL then (None, set_incremental s)
     else if c = K COMMAND_SET_ABSOLUTE then (None, set_absolute s)
     else if c = K COMMAND_SET_POSITION then
       (case item values 0 of
          Inl e \<Rightarrow> (Some e, s)
        | Inr x \<Rightarrow> (case item values 1 of
                     Inl e \<Rightarrow> (Some e, s)
                   | Inr y \<Rightarrow> (None, set_position s x y)))
     else if c = K COMMAND_MODE_RAPID then (None, ensure_rapid_mode s)
     else if c = K COMMAND_MODE_PROGRAM then (None, ensure_program_mode s)
     else if c = K COMMAND_MODE_FINISHED then (None, ensure_finished_mode s)
     else if c = K COMMAND_WAIT then
       (case item values 0 of Inl e \<Rightarrow> (Some e, s) | Inr t \<Rightarrow> (None, wait s t))
     else if c = K COMMAND_WAIT_FINISH then (None, wait_finish s)
     else if c = K COMMAND_BEEP then (None, s)
     else if c = K COMMAND_FUNCTION then run_function F s values
     else if c = K COMMAND_SIGNAL then
       (if 2 \<le> length values
        then (None, s\<lparr>ctx := signal (ctx s) (values ! 0) (drop 1 values)\<rparr>)
        else (None, s))
     else (None, s))"

text \<open>
  After the type test, \<^verbatim>\<open>command\<close> runs the chain under \<^verbatim>\<open>except AttributeError: pass\<close>
  and returns True; any other exception leaves the method.
\<close>

definition command_int :: "callables \<Rightarrow> command_table \<Rightarrow> interpreter \<Rightarrow> pyval \<Rightarrow> pyval list \<Rightarrow> (exc + bool) \<times> interpreter" where
  "command_int F K s c values =
     (case c of
        PyInt n \<Rightarrow>
          (case dispatch F K s n values of
             (None, s') \<Rightarrow> (Inr True, s')
           | (Some AttributeError, s') \<Rightarrow> (Inr True, s')
           | (Some e, s') \<Rightarrow> (Inl e, s'))
      | _ \<Rightarrow> (Inr False, s))"

text \<open>
  \<^verbatim>\<open>command(command, *values)\<close>: a tuple is split into its head and the rest;
  \<^verbatim>\<open>command[0]\<close> on the empty tuple raises IndexError.
\<close>

definition command :: "callables \<Rightarrow> command_table \<Rightarrow> interpreter \<Rightarrow> pyval \<Rightarrow> pyval list \<Rightarrow> (exc + bool) \<times> interpreter" where
  "command F K s c values =
     (case c of
        PyTuple t \<Rightarrow>
          (case t of
             [] \<Rightarrow> (Inl IndexError, s)
           | c0 # vs \<Rightarrow> command_int F K s c0 vs)
      | _ \<Rightarrow> command_int F K s c values)"

section \<open>Realtime commands\<close>

text \<open>
  Of the methods \<^verbatim>\<open>realtime_command\<close> calls, the class defines \<^verbatim>\<open>reset\<close> and \<^verbatim>\<open>status\<close>
  only; every other branch raises AttributeError, which the method swallows.
\<close>

definition realtime_dispatch :: "realtime_table \<Rightarrow> interpreter \<Rightarrow> pyval \<Rightarrow> pyval list \<Rightarrow> outcome" where
  "realtime_dispatch R s c values =
    (if py_eq_int c (R REALTIME_PAUSE) then (Some AttributeError, s)
     else if py_eq_int c (R REALTIME_RESUME) then (Some AttributeError, s)
     else if py_eq_int c (R REALTIME_RESET) then (None, reset s)
     else if py_eq_int c (R REALTIME_STATUS) then status s
     else if py_eq_int c (R REALTIME_SAFETY_DOOR) then (Some AttributeError, s)
     else if py_eq_int c (R REALTIME_JOG_CANCEL) then (Some AttributeError, s)
     else if py_eq_int c (R REALTIME_SPEED_PERCENT) then (Some AttributeError, s)
     else if py_eq_int c (R REALTIME_SPEED) then (Some AttributeError, s)
     else if py_eq_int c (R REALTIME_RAPID_PERCENT) then (Some AttributeError, s)
     else if py_eq_int c (R REALTIME_RAPID) then (Some AttributeError, s)
     else if py_eq_int c (R REALTIME_POWER_PERCENT) then (Some AttributeError, s)
     else if py_eq_int c (R REALTIME_POWER) then (Some AttributeError, s)
     else if py_eq_int c (R REALTIME_OVERSCAN) then (Some AttributeError, s)
     else if py_eq_int c (R REALTIME_LASER_DISABLE) then (Some AttributeError, s)
     else if py_eq_int c (R REALTIME_LASER_ENABLE) then (Some AttributeError, s)
     else if py_eq_int c (R REALTIME_FLOOD_COOLANT) then (Some AttributeError, s)
     else if py_eq_int c (R REALTIME_MIST_COOLANT) then (Some AttributeError, s)
     else (None, s))"

definition realtime_command :: "realtime_table \<Rightarrow> interpreter \<Rightarrow> pyval \<Rightarrow> pyval list \<Rightarrow> outcome" where
  "realtime_command R s c values =
     (case realtime_dispatch R s c values of
        (Some AttributeError, s') \<Rightarrow> (None, s')
      | r \<Rightarrow> r)"

section \<open>Holds\<close>

text \<open>
  Calling a hold: the predicate's answer (or the exception) and the predicate after the
  call. An entry of \<^verbatim>\<open>temp_holds\<close> can be \<^verbatim>\<open>None\<close>, and calling \<^verbatim>\<open>None\<close> raises TypeError.
\<close>

fun call_fn :: "hold_fn \<Rightarrow> (exc + bool) \<times> hold_fn" where
  "call_fn (Pred i f k) = (Inr (f k), Pred i f (Suc k))"
| "call_fn PipeHold = (Inl AttributeError, PipeHold)"

fun call_hold :: "hold_fn option \<Rightarrow> (exc + bool) \<times> hold_fn option" where
  "call_hold None = (Inl TypeError, None)"
| "call_hold (Some h) = (case call_fn h of (r, h') \<Rightarrow> (r, Some h'))"

text \<open>
  The first loop of \<^verbatim>\<open>hold\<close>, from the entry it has reached, with the flags
  \<^verbatim>\<open>temp_hold\<close> and \<^verbatim>\<open>fail_hold\<close> so far: the flags at the end (or the exception) and the list
  as the loop leaves it.
\<close>

fun temp_loop :: "hold_fn option list \<Rightarrow> bool \<Rightarrow> bool \<Rightarrow> (exc + bool \<times> bool) \<times> hold_fn option list" where
  "temp_loop [] temp_hold fail_hold = (Inr (temp_hold, fail_hold), [])"
| "temp_loop (h # hs) temp_hold fail_hold =
     (case call_hold h of
        (Inl e, h') \<Rightarrow> (Inl e, h' # hs)
      | (Inr b, h') \<Rightarrow>
          (if \<not> b
           then (case temp_loop hs temp_hold True of (r, hs') \<Rightarrow> (r, None # hs'))
           else (case temp_loop hs True fail_hold of (r, hs') \<Rightarrow> (r, h' # hs'))))"

text \<open>The second loop: it returns True at the first permanent hold that answers True.\<close>

fun perm_loop :: "hold_fn list \<Rightarrow> (exc + bool) \<times> hold_fn list" where
  "perm_loop [] = (Inr False, [])"
| "perm_loop (h # hs) =
     (case call_fn h of
        (Inl e, h') \<Rightarrow> (Inl e, h' # hs)
      | (Inr b, h') \<Rightarrow>
          (if b then (Inr True, h' # hs)
           else (case perm_loop hs of (r, hs') \<Rightarrow> (r, h' # hs'))))"

definition hold :: "interpreter \<Rightarrow> (exc + bool) \<times> interpreter" where
  "hold s =
     (case temp_loop (temp_holds s) False False of
        (Inl e, ts) \<Rightarrow> (Inl e, s\<lparr>temp_holds := ts\<rparr>)
      | (Inr (temp_hold, fail_hold), ts) \<Rightarrow>
          (let s1 = (if fail_hold then s\<lparr>temp_holds := filter (\<lambda>h. h \<noteq> None) ts\<rparr>
                     else s\<lparr>temp_holds := ts\<rparr>)
           in if temp_hold then (Inr True, s1)
              else (case perm_loop (holds s1) of (r, hs) \<Rightarrow> (r, s1\<lparr>holds := hs\<rparr>))))"

section \<open>The tick\<close>

definition plotplanner_process :: "interpreter \<Rightarrow> bool" where
  "plotplanner_process s = False"

text \<open>
  \<^verbatim>\<open>_fetch_next_item_from_spooler\<close>. \<^verbatim>\<open>generate()\<close> on an object without it raises
  AttributeError, and calling what is not callable raises TypeError; the method catches
  both, the second by returning with nothing in flight. A TypeError raised by the call of a
  callable is caught in the same way, and any other exception of the call leaves the method.
\<close>

definition fetch_next_item_from_spooler :: "callables \<Rightarrow> interpreter \<Rightarrow> outcome" where
  "fetch_next_item_from_spooler F s =
     (let element = peek (ctx s) in
      if element = PyNone then (None, s)
      else let s1 = s\<lparr>ctx := snd (pop (ctx s))\<rparr> in
        (case element of
           PyInt n \<Rightarrow> (None, s1\<lparr>spooled_item := PyTuple [element]\<rparr>)
         | PyTuple t \<Rightarrow> (None, s1\<lparr>spooled_item := element\<rparr>)
         | _ \<Rightarrow>
            (let s2 = s1\<lparr>rapid := opt_rapid_between (ctx s1)\<rparr>;
                 s3 = s2\<lparr>jog := opt_jog_mode (ctx s2)\<rparr>
             in case element of
                  PyGenerate r \<Rightarrow> (None, s3\<lparr>spooled_item := r\<rparr>)
                | PyCallable r \<Rightarrow> (None, s3\<lparr>spooled_item := r\<rparr>)
                | PyFunction n \<Rightarrow>
                    (case F n s3 of
                       (Inr r, s4) \<Rightarrow> (None, s4\<lparr>spooled_item := r\<rparr>)
                     | (Inl TypeError, s4) \<Rightarrow> (None, s4)
                     | (Inl e, s4) \<Rightarrow> (Some e, s4))
                | _ \<Rightarrow> (None, s3))))"

text \<open>
  \<^verbatim>\<open>_process_spooled_item\<close>. \<^verbatim>\<open>next\<close> on what is not an iterator raises TypeError; an
  exhausted iterator raises StopIteration, the one exception the method catches. The
  ValueError raised when \<^verbatim>\<open>command\<close> returns False is not caught.
\<close>

definition process_spooled_item :: "callables \<Rightarrow> command_table \<Rightarrow> interpreter \<Rightarrow> outcome" where
  "process_spooled_item F K s =
     (case hold s of
        (Inl e, s1) \<Rightarrow> (Some e, s1)
      | (Inr held, s1) \<Rightarrow>
          if held then (None, s1)
          else if plotplanner_process s1 then (None, s1)
          else if spooled_item s1 = PyNone then (None, s1)
          else
            (case command F K s1 (spooled_item s1) [] of
               (Inl e, s2) \<Rightarrow> (Some e, s2)
             | (Inr consumed, s2) \<Rightarrow>
                 if consumed then (None, s2\<lparr>spooled_item := PyNone\<rparr>)
                 else
                   (case spooled_item s2 of
                      PyIter [] \<Rightarrow> (None, s2\<lparr>spooled_item := PyNone\<rparr>)
                    | PyIter (e # rest) \<Rightarrow>
                        (let s3 = s2\<lparr>spooled_item := PyIter rest\<rparr> in
                         case command F K s3 e [] of
                           (Inl ex, s4) \<Rightarrow> (Some ex, s4)
                         | (Inr ok, s4) \<Rightarrow>
                             if \<not> ok then (Some ValueError, s4) else (None, s4))
                    | _ \<Rightarrow> (Some TypeError, s2))))"

text \<open>\<^verbatim>\<open>interpret\<close>, one tick.\<close>

definition interpret_tick :: "callables \<Rightarrow> command_table \<Rightarrow> interpreter \<Rightarrow> outcome" where
  "interpret_tick F K s =
     (case (if spooled_item s = PyNone then fetch_next_item_from_spooler F s else (None, s)) of
        (Some e, s1) \<Rightarrow> (Some e, s1)
      | (None, s1) \<Rightarrow>
          if spooled_item s1 = PyNone
          then (None, if quit (ctx s1) then s1\<lparr>ctx := (ctx s1)\<lparr>stopped := True\<rparr>\<rparr> else s1)
          else process_spooled_item F K s1)"

text \<open>The state \<^verbatim>\<open>__init__\<close> builds on a context, with the \<^verbatim>\<open>LaserSettings()\<close> it is given.\<close>

definition new_interpreter :: "kernel_context \<Rightarrow> laser_settings \<Rightarrow> interpreter" where
  "new_interpreter c ls =
     \<lparr>ctx = c\<lparr>current_x := PyInt 0, current_y := PyInt 0\<rparr>,
      settings = ls, spooled_item = PyNone, holds = [], temp_holds = [],
      state = INTERPRETER_STATE_RAPID, properties = 0, is_relative = False,
      laser = False, rapid = opt_rapid_between c, jog = opt_jog_mode c,
      next_run = None\<rparr>"

section \<open>Sample values\<close>

text \<open>
  A table of pairwise distinct values for the command constants, a second one for the
  realtime constants, and a freshly constructed interpreter on a context that holds the
  registered defaults; the theorems below are instantiated at them.
\<close>

fun sample_commands :: command_table where
  "sample_commands COMMAND_LASER_OFF = 1"
| "sample_commands COMMAND_LASER_ON = 2"
| "sample_commands COMMAND_LASER_DISABLE = 3"
| "sample_commands COMMAND_LASER_ENABLE = 4"
| "sample_commands COMMAND_CUT = 5"
| "sample_commands COMMAND_MOVE = 6"
| "sample_commands COMMAND_JOG = 7"
| "sample_commands COMMAND_JOG_SWITCH = 8"
| "sample_commands COMMAND_JOG_FINISH = 9"
| "sample_commands COMMAND_HOME = 10"
| "sample_commands COMMAND_LOCK = 11"
| "sample_commands COMMAND_UNLOCK = 12"
| "sample_commands COMMAND_PLOT = 13"
| "sample_commands COMMAND_PLOT_START = 14"
| "sample_commands COMMAND_SET_SPEED = 15"
| "sample_commands COMMAND_SET_POWER = 16"
| "sample_commands COMMAND_SET_PPI = 17"
| "sample_commands COMMAND_SET_PWM = 18"
| "sample_commands COMMAND_SET_STEP = 19"
| "sample_commands COMMAND_SET_OVERSCAN = 20"
| "sample_commands COMMAND_SET_ACCELERATION = 21"
| "sample_commands COMMAND_SET_D_RATIO = 22"
| "sample_commands COMMAND_SET_DIRECTION = 23"
| "sample_commands COMMAND_SET_INCREMENTAL = 24"
| "sample_commands COMMAND_SET_ABSOLUTE = 25"
| "sample_commands COMMAND_SET_POSITION = 26"
| "sample_commands COMMAND_MODE_RAPID = 27"
| "sample_commands COMMAND_MODE_PROGRAM = 28"
| "sample_commands COMMAND_MODE_FINISHED = 29"
| "sample_commands COMMAND_WAIT = 30"
| "sample_commands COMMAND_WAIT_FINISH = 31"
| "sample_commands COMMAND_BEEP = 32"
| "sample_commands COMMAND_FUNCTION = 33"
| "sample_commands COMMAND_SIGNAL = 34"

fun sample_realtime :: realtime_table where
  "sample_realtime REALTIME_PAUSE = 101"
| "sample_realtime REALTIME_RESUME = 102"
| "sample_realtime REALTIME_RESET = 103"
| "sample_realtime REALTIME_STATUS = 104"
| "sample_realtime REALTIME_SAFETY_DOOR = 105"
| "sample_realtime REALTIME_JOG_CANCEL = 106"
| "sample_realtime REALTIME_SPEED_PERCENT = 107"
| "sample_realtime REALTIME_SPEED = 108"
| "sample_realtime REALTIME_RAPID_PERCENT = 109"
| "sample_realtime REALTIME_RAPID = 110"
| "sample_realtime REALTIME_POWER_PERCENT = 111"
| "sample_realtime REALTIME_POWER = 112"
| "sample_realtime REALTIME_OVERSCAN = 113"
| "sample_realtime REALTIME_LASER_DISABLE = 114"
| "sample_realtime REALTIME_LASER_ENABLE = 115"
| "sample_realtime REALTIME_FLOOD_COOLANT = 116"
| "sample_realtime REALTIME_MIST_COOLANT = 117"

text \<open>
  Callable 0 is the interpreter's bound method \<^verbatim>\<open>ensure_program_mode\<close>; every other one
  returns \<^verbatim>\<open>None\<close> and leaves the interpreter alone.
\<close>

definition sample_callables :: callables where
  "sample_callables n s =
     (if n = 0 then (Inr PyNone, ensure_program_mode s) else (Inr PyNone, s))"

definition sample_context :: kernel_context where
  "sample_context =
     \<lparr>current_x = PyInt 0, current_y = PyInt 0, opt_rapid_between = True,
      opt_jog_mode = 0, opt_jog_minimum = 127, quit = False, stopped = False,
      signals = [], queue = []\<rparr>"

definition sample_settings :: laser_settings where
  "sample_settings =
     \<lparr>speed = PyNone, power_setting = PyFloat 1000, d_ratio = PyNone,
      acceleration = PyNone, raster_step = PyInt 0, overscan = PyInt 20,
      laser_enabled = True\<rparr>"

definition fresh :: interpreter where
  "fresh = new_interpreter sample_context sample_settings"

text \<open>
  A fresh interpreter whose queue holds a job that generates \<open>SET_SPEED(10)\<close> and
  \<open>MOVE(5, 5)\<close>, followed by the bare code of \<open>HOME\<close>.
\<close>

definition sample_loaded :: interpreter where
  "sample_loaded =
     fresh\<lparr>ctx := sample_context\<lparr>queue :=
       [PyGenerate (PyIter [PyTuple [PyInt (sample_commands COMMAND_SET_SPEED), PyInt 10],
                            PyTuple [PyInt (sample_commands COMMAND_MOVE), PyInt 5, PyInt 5]]),
        PyInt (sample_commands COMMAND_HOME)]\<rparr>\<rparr>"

section \<open>Observations\<close>

text \<open>The events published on the way from \<open>s\<close> to \<open>s'\<close>.\<close>

definition published :: "interpreter \<Rightarrow> interpreter \<Rightarrow> event list" where
  "published s s' = drop (length (signals (ctx s))) (signals (ctx s'))"

text \<open>
  The integer \<^verbatim>\<open>command\<close> dispatches on: the command itself, or the head of a tuple;
  \<open>None\<close> where \<^verbatim>\<open>isinstance(command, int)\<close> fails.
\<close>

fun command_code :: "pyval \<Rightarrow> int option" where
  "command_code (PyInt n) = Some n"
| "command_code (PyTuple (PyInt n # vs)) = Some n"
| "command_code _ = None"

text \<open>
  The driver loop: \<open>n\<close> consecutive ticks. An exception that leaves a tick ends the run, with
  the state as the exception left it.
\<close>

primrec ticks :: "callables \<Rightarrow> command_table \<Rightarrow> nat \<Rightarrow> interpreter \<Rightarrow> outcome" where
  "ticks F K 0 s = (None, s)"
| "ticks F K (Suc n) s = (case ticks F K n s of (None, s') \<Rightarrow> interpret_tick F K s' | (Some e, s') \<Rightarrow> (Some e, s'))"












text \<open>
  The constants \<^verbatim>\<open>command\<close> compares with before it reaches \<^verbatim>\<open>COMMAND_SET_PPI\<close>, and
  before it reaches \<^verbatim>\<open>COMMAND_SET_PWM\<close>, in the order of the chain.
\<close>

definition before_set_ppi :: "command_name list" where
  "before_set_ppi =
     [COMMAND_LASER_OFF, COMMAND_LASER_ON, COMMAND_LASER_DISABLE, COMMAND_LASER_ENABLE,
      COMMAND_CUT, COMMAND_MOVE, COMMAND_JOG, COMMAND_JOG_SWITCH, COMMAND_JOG_FINISH,
      COMMAND_HOME, COMMAND_LOCK, COMMAND_UNLOCK, COMMAND_PLOT, COMMAND_PLOT_START,
      COMMAND_SET_SPEED, COMMAND_SET_POWER]"

definition before_set_pwm :: "command_name list" where
  "before_set_pwm = before_set_ppi @ [COMMAND_SET_PPI]"

text \<open>
  The clamp in the specification's words: a number above 1000 becomes 1000, a number that
  is 0 or less becomes 0, and a number in between is kept as it is.
\<close>

fun clamp_power :: "pyval \<Rightarrow> pyval" where
  "clamp_power (PyInt i) = (if i > 1000 then PyFloat 1000 else if i \<le> 0 then PyFloat 0 else PyInt i)"
| "clamp_power (PyFloat x) = (if x > 1000 then PyFloat 1000 else if x \<le> 0 then PyFloat 0 else PyFloat x)"
| "clamp_power v = v"

section \<open>Property register\<close>

lemma or_and_self: "((p::int) OR m) AND m = m"
  by (simp add: bit_eq_iff bit_simps) blast

lemma andnot_and_self: "((p::int) AND NOT m) AND m = 0"
  by (simp add: bit_eq_iff bit_simps)

lemma or_andnot: "((p::int) OR m) AND NOT m = p AND NOT m"
  by (simp add: bit_eq_iff bit_simps) blast

lemma andnot_andnot: "((p::int) AND NOT m) AND NOT m = p AND NOT m"
  by (simp add: bit_eq_iff bit_simps)

text \<open>
  C10. For every nonzero mask \<open>m\<close> (the 32-bit masks among them) and every value of the
  register: after \<open>set_prop m\<close> the query \<open>is_prop m\<close> is true, after \<open>unset_prop m\<close> it is
  false, \<open>toggle_prop m\<close> flips it, and none of the three changes a bit outside \<open>m\<close>.
\<close>

theorem prop_register:
  assumes "m \<noteq> 0"
  shows "is_prop (set_prop s m) m
       \<and> \<not> is_prop (unset_prop s m) m
       \<and> is_prop (toggle_prop s m) m = (\<not> is_prop s m)
       \<and> properties (set_prop s m) AND NOT m = properties s AND NOT m
       \<and> properties (unset_prop s m) AND NOT m = properties s AND NOT m
       \<and> properties (toggle_prop s m) AND NOT m = properties s AND NOT m"
  using assms
  by (simp add: is_prop_def set_prop_def unset_prop_def toggle_prop_def
      or_and_self andnot_and_self or_andnot andnot_andnot)

theorem prop_register_witness:
  "(6::int) \<noteq> 0
   \<and> is_prop (set_prop (fresh\<lparr>properties := 5\<rparr>) 6) 6
   \<and> \<not> is_prop (unset_prop (fresh\<lparr>properties := 5\<rparr>) 6) 6
   \<and> is_prop (toggle_prop (fresh\<lparr>properties := 5\<rparr>) 6) 6 = (\<not> is_prop (fresh\<lparr>properties := 5\<rparr>) 6)
   \<and> properties (toggle_prop (fresh\<lparr>properties := 5\<rparr>) 6) = 1"
  using prop_register [of 6 "fresh\<lparr>properties := 5\<rparr>"]
  by (simp add: is_prop_def set_prop_def unset_prop_def toggle_prop_def)

section \<open>Spooler\<close>

text \<open>
  C6. \<open>job_if_idle\<close> returns True exactly when the queue is empty at the check, and then
  the queue holds the given job; on a queue that is not empty it returns False and changes
  nothing.
\<close>

theorem job_if_idle_spec:
  "fst (job_if_idle c element) = (length (queue c) = 0)
   \<and> (length (queue c) = 0 \<longrightarrow> queue (snd (job_if_idle c element)) = [element])
   \<and> (length (queue c) > 0 \<longrightarrow> snd (job_if_idle c element) = c)"
  by (simp add: job_if_idle_def job_def signal_def)

theorem job_if_idle_witness:
  "fst (job_if_idle sample_context (PyInt 10))
   \<and> queue (snd (job_if_idle sample_context (PyInt 10))) = [PyInt 10]
   \<and> \<not> fst (job_if_idle (sample_context\<lparr>queue := [PyInt 3]\<rparr>) (PyInt 10))
   \<and> snd (job_if_idle (sample_context\<lparr>queue := [PyInt 3]\<rparr>) (PyInt 10)) = sample_context\<lparr>queue := [PyInt 3]\<rparr>"
  using job_if_idle_spec [of sample_context "PyInt 10"]
    job_if_idle_spec [of "sample_context\<lparr>queue := [PyInt 3]\<rparr>" "PyInt 10"]
  by (simp add: sample_context_def)

section \<open>Motion mode\<close>

text \<open>
  A freshly constructed interpreter is in RAPID mode, and two calls of
  \<open>ensure_rapid_mode\<close> on it publish nothing.
\<close>

theorem ensure_rapid_twice_counterexample:
  "published fresh (ensure_rapid_mode (ensure_rapid_mode fresh)) = []"
  by (simp add: published_def fresh_def new_interpreter_def ensure_rapid_mode_def)

text \<open>
  C8, amended. Two consecutive calls of \<open>ensure_rapid_mode\<close> publish the mode-changed
  event exactly once when the starting mode is not RAPID and not at all when it is: a
  call is a no-op if the mode is already RAPID, otherwise it sets the mode to RAPID and
  publishes one mode-changed event carrying the new mode.
\<close>

theorem ensure_rapid_twice:
  "published s (ensure_rapid_mode (ensure_rapid_mode s)) =
     (if state s = INTERPRETER_STATE_RAPID then []
      else [Signal (PyStr ''interpreter;mode'') [PyInt INTERPRETER_STATE_RAPID]])
   \<and> (state s = INTERPRETER_STATE_RAPID \<longrightarrow> ensure_rapid_mode s = s)
   \<and> (state s \<noteq> INTERPRETER_STATE_RAPID \<longrightarrow>
        state (ensure_rapid_mode s) = INTERPRETER_STATE_RAPID
        \<and> published s (ensure_rapid_mode s) =
            [Signal (PyStr ''interpreter;mode'') [PyInt INTERPRETER_STATE_RAPID]])"
  by (simp add: published_def ensure_rapid_mode_def signal_def Let_def)

theorem ensure_rapid_twice_witness:
  "state (fresh\<lparr>state := INTERPRETER_STATE_PROGRAM\<rparr>) \<noteq> INTERPRETER_STATE_RAPID
   \<and> published (fresh\<lparr>state := INTERPRETER_STATE_PROGRAM\<rparr>)
        (ensure_rapid_mode (ensure_rapid_mode (fresh\<lparr>state := INTERPRETER_STATE_PROGRAM\<rparr>)))
      = [Signal (PyStr ''interpreter;mode'') [PyInt 0]]
   \<and> state fresh = INTERPRETER_STATE_RAPID
   \<and> ensure_rapid_mode fresh = fresh"
  using ensure_rapid_twice [of "fresh\<lparr>state := INTERPRETER_STATE_PROGRAM\<rparr>"]
    ensure_rapid_twice [of fresh]
  by (simp add: INTERPRETER_STATE_PROGRAM_def INTERPRETER_STATE_RAPID_def fresh_def
      new_interpreter_def)

section \<open>Reset\<close>

text \<open>A permanent hold survives \<open>reset\<close>.\<close>

theorem reset_counterexample:
  "holds (reset (fresh\<lparr>holds := [Pred 0 (\<lambda>n. True) 0]\<rparr>)) \<noteq> []"
  by (simp add: reset_def)

text \<open>
  C4, amended. \<open>reset\<close>, in any interpreter state, clears the in-flight job, empties the
  pending queue so that a subsequent \<open>peek\<close> returns nothing, and removes all temporary
  holds; the permanent holds are left as they were.
\<close>

theorem reset_clears:
  "spooled_item (reset s) = PyNone
   \<and> queue (ctx (reset s)) = []
   \<and> peek (ctx (reset s)) = PyNone
   \<and> temp_holds (reset s) = []
   \<and> holds (reset s) = holds s"
  by (simp add: reset_def clear_queue_def signal_def peek_def Let_def)

section \<open>Dispatch\<close>

lemma sample_commands_range: "sample_commands x \<in> {1..34}"
  by (cases x) simp_all

lemma not_in_sample: "99 \<notin> range sample_commands"
proof
  assume "99 \<in> range sample_commands"
  then obtain x where "99 = sample_commands x" by (rule rangeE)
  with sample_commands_range [of x] show False by simp
qed

lemma sample_commands_inj: "inj sample_commands"
proof (rule injI)
  fix x y assume eq: "sample_commands x = sample_commands y"
  show "x = y"
  proof (cases x)
    case COMMAND_LASER_OFF
    with eq show ?thesis by (cases y) simp_all
  qed (use eq in \<open>cases y; simp\<close>)+
qed

lemma set_power_state: "state (snd (set_power s v)) = state s"
  by (cases v) (simp_all add: set_power_def store_power_def Let_def)

lemma set_ppi_state: "state (snd (set_ppi s v)) = state s"
  by (cases v) (simp_all add: set_ppi_def store_power_def Let_def)

lemma set_pwm_state: "state (snd (set_pwm s v)) = state s"
  by (simp add: set_pwm_def store_power_def Let_def)

lemma arg0_state:
  assumes "\<And>v. state (snd (h v)) = state s"
  shows "state (snd (case item vs 0 of Inl e \<Rightarrow> (Some e, s) | Inr v \<Rightarrow> h v)) = state s"
  using assms by (simp split: sum.splits)

lemma xy_state:
  assumes "\<And>x y. state (snd (h x y)) = state s"
  shows "state (snd (case unpack2 vs of Inl e \<Rightarrow> (Some e, s) | Inr (x, y) \<Rightarrow> h x y)) = state s"
  using assms by (simp split: sum.splits prod.splits)

text \<open>The callable of \<open>COMMAND_FUNCTION\<close> is the only thing the branch runs.\<close>

lemma run_function_cases:
  obtains "run_function F s vs = (None, s)"
  | m e s' where "F m s = (Inl e, s')" "run_function F s vs = (Some e, s')"
  | m r s' where "F m s = (Inr r, s')" "run_function F s vs = (None, s')"
proof (cases "1 \<le> length vs")
  case False
  then have "run_function F s vs = (None, s)" by (simp add: run_function_def)
  then show ?thesis by (rule that(1))
next
  case True
  show ?thesis
  proof (cases "vs ! 0")
    case (PyFunction m)
    obtain x s' where f: "F m s = (x, s')" by (cases "F m s")
    show ?thesis
    proof (cases x)
      case (Inl e)
      with f True PyFunction have "run_function F s vs = (Some e, s')"
        by (simp add: run_function_def)
      with f Inl show ?thesis by (auto intro: that(2))
    next
      case (Inr r)
      with f True PyFunction have "run_function F s vs = (None, s')"
        by (simp add: run_function_def)
      with f Inr show ?thesis by (auto intro: that(3))
    qed
  qed (use True in \<open>simp_all add: run_function_def that(1)\<close>)
qed

lemma run_function_state:
  assumes "\<forall>m. state (snd (F m s)) = state s"
  shows "state (snd (run_function F s vs)) = state s"
proof (cases rule: run_function_cases [of F s vs])
  case 1
  then show ?thesis by simp
next
  case (2 m e s')
  with assms [rule_format, of m] show ?thesis by simp
next
  case (3 m r s')
  with assms [rule_format, of m] show ?thesis by simp
qed

lemma dispatch_state:
  assumes "n \<noteq> K COMMAND_MODE_RAPID" "n \<noteq> K COMMAND_MODE_PROGRAM" "n \<noteq> K COMMAND_MODE_FINISHED"
    and "n = K COMMAND_FUNCTION \<longrightarrow> (\<forall>m. state (snd (F m s)) = state s)"
  shows "state (snd (dispatch F K s n vs)) = state s"
proof -
  have rf: "n = K COMMAND_FUNCTION \<Longrightarrow> state (snd (run_function F s vs)) = state s"
    using assms(4) by (simp add: run_function_state)
  show ?thesis
    unfolding dispatch_def using assms(1-3) rf
    by (simp add: arg0_state xy_state set_power_state set_ppi_state set_pwm_state
        laser_off_def laser_on_def laser_disable_def laser_enable_def
        move_def cut_def home_def set_speed_def
        set_d_ratio_def set_acceleration_def set_step_def set_overscan_def set_incremental_def
        set_absolute_def set_position_def wait_def wait_finish_def signal_def
        split: sum.splits)
qed

lemma dispatch_unlisted:
  assumes "n \<notin> range K"
  shows "dispatch F K s n vs = (None, s)"
proof -
  have "n \<noteq> K x" for x using assms by blast
  then show ?thesis by (simp add: dispatch_def)
qed

lemma command_int_snd:
  "snd (command_int F K s c vs) = (case c of PyInt n \<Rightarrow> snd (dispatch F K s n vs) | _ \<Rightarrow> s)"
  by (simp add: command_int_def split: pyval.splits prod.splits option.splits exc.splits)

lemma command_snd:
  "snd (command F K s c vs) =
     (case command_code c of None \<Rightarrow> s
      | Some n \<Rightarrow> snd (dispatch F K s n (case c of PyTuple t \<Rightarrow> tl t | _ \<Rightarrow> vs)))"
  by (cases c rule: command_code.cases) (simp_all add: command_def command_int_snd)

lemma command_state:
  assumes "command_code c \<notin> {Some (K COMMAND_MODE_RAPID), Some (K COMMAND_MODE_PROGRAM), Some (K COMMAND_MODE_FINISHED)}"
    and "command_code c = Some (K COMMAND_FUNCTION) \<longrightarrow> (\<forall>m. state (snd (F m s)) = state s)"
  shows "state (snd (command F K s c vs)) = state s"
proof (cases "command_code c")
  case None
  then show ?thesis by (simp add: command_snd)
next
  case (Some n)
  with assms have "n \<noteq> K COMMAND_MODE_RAPID" "n \<noteq> K COMMAND_MODE_PROGRAM" "n \<noteq> K COMMAND_MODE_FINISHED"
    "n = K COMMAND_FUNCTION \<longrightarrow> (\<forall>m. state (snd (F m s)) = state s)"
    by auto
  then show ?thesis by (simp add: command_snd Some dispatch_state)
qed

lemma status_state: "state (snd (status s)) = state s"
  by (simp add: status_def Let_def)

lemma reset_state: "state (reset s) = state s"
  by (simp add: reset_def Let_def)

lemma realtime_dispatch_state: "state (snd (realtime_dispatch R s c vs)) = state s"
  by (simp add: realtime_dispatch_def status_state reset_state)

lemma realtime_command_snd: "snd (realtime_command R s c vs) = snd (realtime_dispatch R s c vs)"
  by (simp add: realtime_command_def split: prod.splits option.splits exc.splits)

lemma dispatch_function:
  assumes "inj K"
  shows "dispatch F K s (K COMMAND_FUNCTION) vs = run_function F s vs"
  using assms by (simp add: dispatch_def inj_eq)

lemma command_function_state:
  assumes "inj K"
  shows "state (snd (command F K s (PyTuple [PyInt (K COMMAND_FUNCTION), PyFunction m]) vs))
           = state (snd (F m s))"
  using assms
  by (simp add: command_snd dispatch_function run_function_def split: prod.splits sum.splits)

text \<open>
  On a fresh interpreter, which is in RAPID mode, the command \<open>FUNCTION\<close> with the bound
  method \<^verbatim>\<open>ensure_program_mode\<close> as its callable is none of the three mode commands, and it
  leaves the interpreter in PROGRAM mode.
\<close>

theorem function_mode_counterexample:
  "command_code (PyTuple [PyInt (sample_commands COMMAND_FUNCTION), PyFunction 0]) \<notin>
     {Some (sample_commands COMMAND_MODE_RAPID), Some (sample_commands COMMAND_MODE_PROGRAM),
      Some (sample_commands COMMAND_MODE_FINISHED)}
   \<and> state fresh = INTERPRETER_STATE_RAPID
   \<and> state (snd (command sample_callables sample_commands fresh
        (PyTuple [PyInt (sample_commands COMMAND_FUNCTION), PyFunction 0]) []))
      = INTERPRETER_STATE_PROGRAM
   \<and> INTERPRETER_STATE_PROGRAM \<noteq> INTERPRETER_STATE_RAPID"
  using command_function_state [OF sample_commands_inj, of sample_callables fresh 0 "[]"]
  by (simp add: sample_callables_def ensure_program_mode_def fresh_def new_interpreter_def
      Let_def INTERPRETER_STATE_PROGRAM_def INTERPRETER_STATE_RAPID_def)

text \<open>
  C9, amended. A queued command whose code is none of \<open>COMMAND_MODE_RAPID\<close>,
  \<open>COMMAND_MODE_PROGRAM\<close> and \<open>COMMAND_MODE_FINISHED\<close> (whatever its arguments, and whether
  or not it raises) leaves the \<open>state\<close> field as it was, provided that, when its code is
  \<open>COMMAND_FUNCTION\<close>, the callables leave it as it was; every realtime command leaves it
  as it was; and \<open>COMMAND_FUNCTION\<close> with a callable changes the mode exactly as the call
  of the callable does.
\<close>

theorem mode_unchanged:
  "(command_code c \<notin> {Some (K COMMAND_MODE_RAPID), Some (K COMMAND_MODE_PROGRAM), Some (K COMMAND_MODE_FINISHED)}
      \<and> (command_code c = Some (K COMMAND_FUNCTION) \<longrightarrow> (\<forall>m. state (snd (F m s)) = state s))
      \<longrightarrow> state (snd (command F K s c vs)) = state s)
   \<and> state (snd (realtime_command R s r ws)) = state s
   \<and> (inj K \<longrightarrow>
        state (snd (command F K s (PyTuple [PyInt (K COMMAND_FUNCTION), PyFunction m]) vs))
          = state (snd (F m s)))"
  by (simp add: command_state realtime_command_snd realtime_dispatch_state command_function_state)

theorem mode_unchanged_witness:
  "command_code (PyTuple [PyInt 6, PyInt 5, PyInt 5]) \<notin>
     {Some (sample_commands COMMAND_MODE_RAPID), Some (sample_commands COMMAND_MODE_PROGRAM),
      Some (sample_commands COMMAND_MODE_FINISHED)}
   \<and> command_code (PyTuple [PyInt 6, PyInt 5, PyInt 5]) \<noteq> Some (sample_commands COMMAND_FUNCTION)
   \<and> state (snd (command sample_callables sample_commands (fresh\<lparr>state := 2\<rparr>) (PyTuple [PyInt 6, PyInt 5, PyInt 5]) [])) = 2
   \<and> state (snd (realtime_command sample_realtime (fresh\<lparr>state := 2\<rparr>) (PyInt 103) [])) = 2
   \<and> inj sample_commands
   \<and> state (snd (command sample_callables sample_commands (fresh\<lparr>state := 2\<rparr>)
        (PyTuple [PyInt (sample_commands COMMAND_FUNCTION), PyFunction 1]) [])) = 2"
  using mode_unchanged [of "PyTuple [PyInt 6, PyInt 5, PyInt 5]" sample_commands sample_callables
      "fresh\<lparr>state := 2\<rparr>" "[]" sample_realtime "PyInt 103" "[]" 1]
    sample_commands_inj
  by (simp add: sample_callables_def)

lemma command_not_int:
  assumes "command_code c = None" "c \<noteq> PyTuple []"
  shows "command F K s c vs = (Inr False, s)"
  using assms
  by (cases c rule: command_code.cases) (simp_all add: command_def command_int_def)

lemma command_unlisted_int:
  assumes "command_code c = Some n" "n \<notin> range K"
  shows "command F K s c vs = (Inr True, s)"
  using assms
  by (cases c rule: command_code.cases) (simp_all add: command_def command_int_def dispatch_unlisted)

lemma command_int_code:
  assumes "command_code c = Some n"
  shows "fst (command F K s c vs) = Inr True
       \<or> (\<exists>e. fst (command F K s c vs) = Inl e \<and> e \<noteq> AttributeError)"
  using assms
  by (cases c rule: command_code.cases)
    (auto simp: command_def command_int_def split: prod.splits option.splits exc.splits)

lemma command_empty_tuple: "command F K s (PyTuple []) vs = (Inl IndexError, s)"
  by (simp add: command_def)

lemma command_false_iff:
  "(fst (command F K s c vs) = Inr False) = (command_code c = None \<and> c \<noteq> PyTuple [])"
proof (cases "command_code c")
  case None
  show ?thesis
  proof (cases "c = PyTuple []")
    case True
    then show ?thesis by (simp add: command_empty_tuple)
  next
    case False
    with None show ?thesis by (simp add: command_not_int)
  qed
next
  case (Some n)
  from command_int_code [OF Some, of F K s vs] Some show ?thesis by auto
qed

text \<open>
  The integer 99 is none of the sample table's codes, and \<open>command\<close> returns True on it.
\<close>

theorem unlisted_counterexample:
  "99 \<notin> range sample_commands \<and> fst (command sample_callables sample_commands fresh (PyInt 99) []) = Inr True"
  by (simp add: not_in_sample command_def command_int_def dispatch_unlisted)

text \<open>
  C5, amended. \<open>command\<close> returns False, "not recognized", exactly for a command whose code
  is not an integer at all (the empty tuple apart, on which it raises IndexError), and it
  then changes nothing. On every integer code, in the command enumeration or not, it
  returns True unless an exception other than AttributeError leaves the handler; an integer
  outside the enumeration runs no handler, changes nothing and returns True (the command
  counts as consumed).
\<close>

theorem command_unlisted:
  "(fst (command F K s c vs) = Inr False) = (command_code c = None \<and> c \<noteq> PyTuple [])
   \<and> (command_code c = None \<and> c \<noteq> PyTuple [] \<longrightarrow> command F K s c vs = (Inr False, s))
   \<and> (c = PyTuple [] \<longrightarrow> command F K s c vs = (Inl IndexError, s))
   \<and> (command_code c = Some n \<longrightarrow>
        fst (command F K s c vs) = Inr True
        \<or> (\<exists>e. fst (command F K s c vs) = Inl e \<and> e \<noteq> AttributeError))
   \<and> (command_code c = Some n \<and> n \<notin> range K \<longrightarrow> command F K s c vs = (Inr True, s))"
  using command_false_iff [of F K s c vs] command_int_code [of c n F K s vs]
  by (simp add: command_not_int command_unlisted_int command_empty_tuple)

theorem command_unlisted_witness:
  "command_code (PyTuple [PyInt 99, PyInt 1]) = Some 99 \<and> 99 \<notin> range sample_commands
   \<and> command sample_callables sample_commands fresh (PyTuple [PyInt 99, PyInt 1]) [] = (Inr True, fresh)
   \<and> command_code (PyStr ''home'') = None \<and> PyStr ''home'' \<noteq> PyTuple []
   \<and> command sample_callables sample_commands fresh (PyStr ''home'') [] = (Inr False, fresh)
   \<and> command sample_callables sample_commands fresh (PyTuple []) [] = (Inl IndexError, fresh)
   \<and> command_code (PyInt (sample_commands COMMAND_HOME)) = Some 10
   \<and> fst (command sample_callables sample_commands fresh (PyInt (sample_commands COMMAND_HOME)) []) \<noteq> Inr False"
  using command_unlisted [of sample_callables sample_commands fresh "PyTuple [PyInt 99, PyInt 1]" "[]" 99]
    command_unlisted [of sample_callables sample_commands fresh "PyStr ''home''" "[]" 0]
    command_unlisted [of sample_callables sample_commands fresh "PyTuple []" "[]" 0]
    command_unlisted [of sample_callables sample_commands fresh "PyInt (sample_commands COMMAND_HOME)" "[]" 10]
  by (simp add: not_in_sample)

section \<open>Power\<close>

lemma dispatch_set_power:
  assumes "inj K"
  shows "dispatch F K s (K COMMAND_SET_POWER) [v] = set_power s v"
  using assms by (simp add: dispatch_def inj_eq item_def)

lemma dispatch_reaches_ppi:
  assumes "K COMMAND_SET_PPI \<notin> K ` set before_set_ppi"
  shows "dispatch F K s (K COMMAND_SET_PPI) [v] = set_ppi s v"
  using assms by (simp add: dispatch_def before_set_ppi_def item_def)

lemma dispatch_reaches_pwm:
  assumes "K COMMAND_SET_PWM \<notin> K ` set before_set_pwm"
  shows "dispatch F K s (K COMMAND_SET_PWM) [v] = set_pwm s v"
  using assms by (simp add: dispatch_def before_set_pwm_def before_set_ppi_def item_def)

text \<open>\<open>set_power\<close> and \<open>set_ppi\<close> clamp a number to the range from 0 to 1000.\<close>

lemma set_power_clamps:
  assumes "is_number v"
  shows "set_power s v = (None, store_power s (clamp_power v))"
  using assms by (cases v) (simp_all add: set_power_def store_power_def Let_def)

lemma set_ppi_clamps:
  assumes "is_number v"
  shows "set_ppi s v = (None, store_power s (clamp_power v))"
  using assms by (cases v) (simp_all add: set_ppi_def store_power_def Let_def)

lemma command_pwm_reached:
  assumes "K COMMAND_SET_PWM \<notin> K ` set before_set_pwm"
  shows "command F K s (PyTuple [PyInt (K COMMAND_SET_PWM), v]) [] = (Inr True, store_power s v)"
  using assms
  by (simp add: command_def command_int_def dispatch_reaches_pwm set_pwm_def)

lemma command_pwm_shadowed:
  assumes "K COMMAND_SET_PWM = K COMMAND_SET_PPI" "K COMMAND_SET_PPI \<notin> K ` set before_set_ppi"
    and "is_number v"
  shows "command F K s (PyTuple [PyInt (K COMMAND_SET_PWM), v]) [] =
           (Inr True, store_power s (clamp_power v))"
  using assms(1) dispatch_reaches_ppi [OF assms(2), of F s v] set_ppi_clamps [OF assms(3), of s]
  by (simp add: command_def command_int_def)

text \<open>
  C2, where the code departs from it. \<open>set_power\<close> and \<open>set_ppi\<close> leave \<open>settings.power\<close>
  equal to the value clamped, as the claim says. \<open>set_pwm\<close> raises AttributeError after
  the store and before either comparison, and leaves \<open>settings.power\<close> equal to the value
  itself, clamped or not. Through \<open>command\<close>, which swallows the AttributeError, the same
  happens whenever \<open>COMMAND_SET_PWM\<close> differs from every constant compared before it;
  where the table gives it the value of \<open>COMMAND_SET_PPI\<close>, the branch of \<open>set_pwm\<close> is
  never reached and \<open>set_ppi\<close> clamps.
\<close>

theorem set_pwm_not_clamped:
  "fst (set_pwm s v) = Some AttributeError
   \<and> power_setting (settings (snd (set_pwm s v))) = v
   \<and> (is_number v \<longrightarrow>
        power_setting (settings (snd (set_power s v))) = clamp_power v
        \<and> power_setting (settings (snd (set_ppi s v))) = clamp_power v)
   \<and> (K COMMAND_SET_PWM \<notin> K ` set before_set_pwm \<longrightarrow>
        command F K s (PyTuple [PyInt (K COMMAND_SET_PWM), v]) [] = (Inr True, store_power s v)
        \<and> power_setting (settings (store_power s v)) = v)
   \<and> (K COMMAND_SET_PWM = K COMMAND_SET_PPI \<and> K COMMAND_SET_PPI \<notin> K ` set before_set_ppi
        \<and> is_number v \<longrightarrow>
        command F K s (PyTuple [PyInt (K COMMAND_SET_PWM), v]) [] =
          (Inr True, store_power s (clamp_power v)))"
proof (intro conjI impI)
  show "fst (set_pwm s v) = Some AttributeError"
    by (simp add: set_pwm_def)
  show "power_setting (settings (snd (set_pwm s v))) = v"
    by (simp add: set_pwm_def store_power_def)
  show "power_setting (settings (snd (set_power s v))) = clamp_power v" if "is_number v"
    using that by (simp add: set_power_clamps store_power_def)
  show "power_setting (settings (snd (set_ppi s v))) = clamp_power v" if "is_number v"
    using that by (simp add: set_ppi_clamps store_power_def)
  show "command F K s (PyTuple [PyInt (K COMMAND_SET_PWM), v]) [] = (Inr True, store_power s v)"
    if "K COMMAND_SET_PWM \<notin> K ` set before_set_pwm"
    using that by (rule command_pwm_reached)
  show "power_setting (settings (store_power s v)) = v"
    by (simp add: store_power_def)
  show "command F K s (PyTuple [PyInt (K COMMAND_SET_PWM), v]) [] =
          (Inr True, store_power s (clamp_power v))"
    if "K COMMAND_SET_PWM = K COMMAND_SET_PPI \<and> K COMMAND_SET_PPI \<notin> K ` set before_set_ppi
        \<and> is_number v"
    using that by (intro command_pwm_shadowed) simp_all
qed

theorem set_pwm_not_clamped_witness:
  "fst (set_pwm fresh (PyInt 1500)) = Some AttributeError
   \<and> power_setting (settings (snd (set_pwm fresh (PyInt 1500)))) = PyInt 1500
   \<and> is_number (PyInt 1500)
   \<and> power_setting (settings (snd (set_power fresh (PyInt 1500)))) = PyFloat 1000
   \<and> power_setting (settings (snd (set_ppi fresh (PyInt 1500)))) = PyFloat 1000
   \<and> sample_commands COMMAND_SET_PWM \<notin> sample_commands ` set before_set_pwm
   \<and> power_setting (settings (snd (command sample_callables sample_commands fresh
        (PyTuple [PyInt (sample_commands COMMAND_SET_PWM), PyInt 1500]) []))) = PyInt 1500
   \<and> (sample_commands(COMMAND_SET_PWM := 17)) COMMAND_SET_PWM
        = (sample_commands(COMMAND_SET_PWM := 17)) COMMAND_SET_PPI
   \<and> (sample_commands(COMMAND_SET_PWM := 17)) COMMAND_SET_PPI
        \<notin> (sample_commands(COMMAND_SET_PWM := 17)) ` set before_set_ppi
   \<and> power_setting (settings (snd (command sample_callables (sample_commands(COMMAND_SET_PWM := 17)) fresh
        (PyTuple [PyInt ((sample_commands(COMMAND_SET_PWM := 17)) COMMAND_SET_PWM), PyInt 1500]) [])))
      = PyFloat 1000"
  using set_pwm_not_clamped [of fresh "PyInt 1500" sample_commands sample_callables]
    set_pwm_not_clamped [of fresh "PyInt 1500" "sample_commands(COMMAND_SET_PWM := 17)" sample_callables]
  by (simp add: before_set_pwm_def before_set_ppi_def store_power_def)

section \<open>The tick\<close>

lemma hold_fields:
  "hold s = (r, s1) \<Longrightarrow> spooled_item s1 = spooled_item s \<and> ctx s1 = ctx s \<and> settings s1 = settings s \<and> state s1 = state s"
  by (auto simp: hold_def Let_def split: prod.splits sum.splits if_splits)

lemma hold_no_holds:
  assumes "holds s = []" "temp_holds s = []"
  shows "hold s = (Inr False, s)"
  using assms by (cases s) (simp add: hold_def)

lemma set_power_queue: "queue (ctx (snd (set_power s v))) = queue (ctx s)"
  by (cases v) (simp_all add: set_power_def store_power_def Let_def)

lemma set_ppi_queue: "queue (ctx (snd (set_ppi s v))) = queue (ctx s)"
  by (cases v) (simp_all add: set_ppi_def store_power_def Let_def)

lemma set_pwm_queue: "queue (ctx (snd (set_pwm s v))) = queue (ctx s)"
  by (simp add: set_pwm_def store_power_def Let_def)

lemma arg0_queue:
  assumes "\<And>v. queue (ctx (snd (h v))) = queue (ctx s)"
  shows "queue (ctx (snd (case item vs 0 of Inl e \<Rightarrow> (Some e, s) | Inr v \<Rightarrow> h v))) = queue (ctx s)"
  using assms by (simp split: sum.splits)

lemma xy_queue:
  assumes "\<And>x y. queue (ctx (snd (h x y))) = queue (ctx s)"
  shows "queue (ctx (snd (case unpack2 vs of Inl e \<Rightarrow> (Some e, s) | Inr (x, y) \<Rightarrow> h x y))) = queue (ctx s)"
  using assms by (simp split: sum.splits prod.splits)

text \<open>
  A command leaves the pending queue alone, as long as the callables it may run do.
\<close>

lemma run_function_queue:
  assumes "\<forall>m u. queue (ctx (snd (F m u))) = queue (ctx u)"
  shows "queue (ctx (snd (run_function F s vs))) = queue (ctx s)"
proof (cases rule: run_function_cases [of F s vs])
  case 1
  then show ?thesis by simp
next
  case (2 m e s')
  with assms [rule_format, of m s] show ?thesis by simp
next
  case (3 m r s')
  with assms [rule_format, of m s] show ?thesis by simp
qed

lemma dispatch_queue:
  assumes "\<forall>m u. queue (ctx (snd (F m u))) = queue (ctx u)"
  shows "queue (ctx (snd (dispatch F K s n vs))) = queue (ctx s)"
  unfolding dispatch_def
  by (simp add: arg0_queue xy_queue set_power_queue set_ppi_queue set_pwm_queue
      run_function_queue [OF assms]
      laser_off_def laser_on_def laser_disable_def laser_enable_def
      move_def cut_def home_def set_speed_def
      ensure_rapid_mode_def ensure_program_mode_def ensure_finished_mode_def Let_def
      set_d_ratio_def set_acceleration_def set_step_def set_overscan_def set_incremental_def
      set_absolute_def set_position_def wait_def wait_finish_def signal_def
      split: sum.splits)

lemma command_queue:
  assumes "\<forall>m u. queue (ctx (snd (F m u))) = queue (ctx u)"
  shows "queue (ctx (snd (command F K s c vs))) = queue (ctx s)"
  by (simp add: command_snd dispatch_queue [OF assms] split: option.splits)

text \<open>
  What every command keeps, and the hold of a tick establishes, holds after
  \<^verbatim>\<open>_process_spooled_item\<close>.
\<close>

lemma process_invariant:
  assumes cmd: "\<And>u c. I u \<Longrightarrow> I (snd (command F K u c []))"
    and upd: "\<And>u x. I u \<Longrightarrow> I (u\<lparr>spooled_item := x\<rparr>)"
    and h: "I (snd (hold s))"
  shows "I (snd (process_spooled_item F K s))"
proof -
  obtain r s1 where hs: "hold s = (r, s1)" by (cases "hold s")
  with h have i1: "I s1" by simp
  obtain r2 s2 where c2: "command F K s1 (spooled_item s1) [] = (r2, s2)"
    by (cases "command F K s1 (spooled_item s1) []")
  from cmd [OF i1, of "spooled_item s1"] c2 have i2: "I s2" by simp
  have pulled: "I (snd (case spooled_item s2 of
                      PyIter [] \<Rightarrow> (None, s2\<lparr>spooled_item := PyNone\<rparr>)
                    | PyIter (e # rest) \<Rightarrow>
                        (let s3 = s2\<lparr>spooled_item := PyIter rest\<rparr> in
                         case command F K s3 e [] of
                           (Inl ex, s4) \<Rightarrow> (Some ex, s4)
                         | (Inr ok, s4) \<Rightarrow>
                             if \<not> ok then (Some ValueError, s4) else (None, s4))
                    | _ \<Rightarrow> (Some TypeError, s2)))"
  proof (cases "spooled_item s2")
    case (PyIter xs)
    show ?thesis
    proof (cases xs)
      case Nil
      with PyIter upd [OF i2] show ?thesis by simp
    next
      case (Cons e rest)
      obtain r4 s4 where c4: "command F K (s2\<lparr>spooled_item := PyIter rest\<rparr>) e [] = (r4, s4)"
        by (cases "command F K (s2\<lparr>spooled_item := PyIter rest\<rparr>) e []")
      from cmd [OF upd [OF i2], of "PyIter rest" e] c4 have "I s4" by simp
      with PyIter Cons c4 show ?thesis by (cases r4) (simp_all add: Let_def)
    qed
  qed (simp_all add: i2)
  show ?thesis
  proof (cases r)
    case (Inl e)
    with hs i1 show ?thesis by (simp add: process_spooled_item_def)
  next
    case held: (Inr held)
    show ?thesis
    proof (cases "held \<or> spooled_item s1 = PyNone")
      case True
      with hs held i1 show ?thesis
        by (auto simp: process_spooled_item_def plotplanner_process_def)
    next
      case False
      show ?thesis
      proof (cases r2)
        case (Inl e)
        with hs held False c2 i2 show ?thesis
          by (simp add: process_spooled_item_def plotplanner_process_def)
      next
        case (Inr consumed)
        with hs held False c2 upd [OF i2, of PyNone] pulled show ?thesis
          by (simp add: process_spooled_item_def plotplanner_process_def)
      qed
    qed
  qed
qed

lemma process_queue:
  assumes "\<forall>m u. queue (ctx (snd (F m u))) = queue (ctx u)"
  shows "queue (ctx (snd (process_spooled_item F K s))) = queue (ctx s)"
proof (rule process_invariant [where I = "\<lambda>u. queue (ctx u) = queue (ctx s)"])
  show "queue (ctx (snd (command F K u c []))) = queue (ctx s)" if "queue (ctx u) = queue (ctx s)" for u c
    using that by (simp add: command_queue [OF assms])
  show "queue (ctx (u\<lparr>spooled_item := x\<rparr>)) = queue (ctx s)" if "queue (ctx u) = queue (ctx s)" for u x
    using that by simp
  obtain r s1 where "hold s = (r, s1)" by (cases "hold s")
  then show "queue (ctx (snd (hold s))) = queue (ctx s)"
    using hold_fields [of s r s1] by simp
qed

text \<open>An unrecognized element pulled from the sequence.\<close>

lemma tick_unrecognized:
  assumes "spooled_item s = PyIter (e # rest)"
    and "hold s = (Inr False, s1)"
    and "command_code e = None" and "e \<noteq> PyTuple []"
  shows "interpret_tick F K s = (Some ValueError, s1\<lparr>spooled_item := PyIter rest\<rparr>)"
proof -
  have sp: "spooled_item s1 = PyIter (e # rest)"
    using hold_fields [OF assms(2)] assms(1) by simp
  have c1: "command F K s1 (PyIter (e # rest)) [] = (Inr False, s1)"
    by (rule command_not_int) simp_all
  have c2: "command F K (s1\<lparr>spooled_item := PyIter rest\<rparr>) e [] = (Inr False, s1\<lparr>spooled_item := PyIter rest\<rparr>)"
    using assms(3,4) by (rule command_not_int)
  show ?thesis
    using assms(1,2) sp c1 c2
    by (simp add: interpret_tick_def process_spooled_item_def plotplanner_process_def)
qed

text \<open>
  A sequence whose first element is a string: the tick that pulls it raises ValueError and
  keeps the rest of the sequence in flight.
\<close>

theorem unrecognized_counterexample:
  "fst (interpret_tick sample_callables sample_commands
         (fresh\<lparr>ctx := sample_context\<lparr>queue := [PyGenerate (PyIter [PyStr ''bogus'', PyInt 10])]\<rparr>\<rparr>))
     = Some ValueError
   \<and> spooled_item (snd (interpret_tick sample_callables sample_commands
         (fresh\<lparr>ctx := sample_context\<lparr>queue := [PyGenerate (PyIter [PyStr ''bogus'', PyInt 10])]\<rparr>\<rparr>)))
     = PyIter [PyInt 10]"
  by (simp add: interpret_tick_def fetch_next_item_from_spooler_def peek_def pop_def signal_def
      fresh_def new_interpreter_def sample_context_def process_spooled_item_def hold_def
      command_def command_int_def plotplanner_process_def Let_def)

text \<open>
  C1, amended. When, during the drain of a lazy sequence, \<open>command\<close> reports the pulled
  element unrecognized, the tick raises ValueError to its caller. The pulled element is
  consumed, the remainder of the sequence stays in flight and the pending queue is
  untouched; the next tick fetches nothing and goes on with the same sequence, and it
  leaves the pending queue as it was unless a callable it runs changes it.
\<close>

theorem unrecognized_raises:
  assumes "spooled_item s = PyIter (e # rest)"
    and "hold s = (Inr False, s1)"
    and "command_code e = None" and "e \<noteq> PyTuple []"
  shows "interpret_tick F K s = (Some ValueError, s1\<lparr>spooled_item := PyIter rest\<rparr>)
       \<and> queue (ctx s1) = queue (ctx s)
       \<and> interpret_tick F K (s1\<lparr>spooled_item := PyIter rest\<rparr>)
           = process_spooled_item F K (s1\<lparr>spooled_item := PyIter rest\<rparr>)
       \<and> ((\<forall>m u. queue (ctx (snd (F m u))) = queue (ctx u)) \<longrightarrow>
            queue (ctx (snd (interpret_tick F K (s1\<lparr>spooled_item := PyIter rest\<rparr>)))) = queue (ctx s))"
proof -
  have c: "ctx s1 = ctx s" using hold_fields [OF assms(2)] by simp
  have n: "interpret_tick F K (s1\<lparr>spooled_item := PyIter rest\<rparr>)
          = process_spooled_item F K (s1\<lparr>spooled_item := PyIter rest\<rparr>)"
    by (simp add: interpret_tick_def)
  have "queue (ctx (snd (interpret_tick F K (s1\<lparr>spooled_item := PyIter rest\<rparr>)))) = queue (ctx s)"
    if "\<forall>m u. queue (ctx (snd (F m u))) = queue (ctx u)"
    using c by (simp add: n process_queue [OF that])
  then show ?thesis
    using tick_unrecognized [OF assms] c n by simp
qed

theorem unrecognized_raises_witness:
  "spooled_item (fresh\<lparr>spooled_item := PyIter [PyStr ''bogus'', PyInt 10]\<rparr>) = PyIter [PyStr ''bogus'', PyInt 10]
   \<and> hold (fresh\<lparr>spooled_item := PyIter [PyStr ''bogus'', PyInt 10]\<rparr>)
       = (Inr False, fresh\<lparr>spooled_item := PyIter [PyStr ''bogus'', PyInt 10]\<rparr>)
   \<and> command_code (PyStr ''bogus'') = None \<and> PyStr ''bogus'' \<noteq> PyTuple []
   \<and> interpret_tick sample_callables sample_commands (fresh\<lparr>spooled_item := PyIter [PyStr ''bogus'', PyInt 10]\<rparr>)
       = (Some ValueError, fresh\<lparr>spooled_item := PyIter [PyInt 10]\<rparr>)
   \<and> (\<forall>m u. queue (ctx (snd (sample_callables m u))) = queue (ctx u))
   \<and> queue (ctx (snd (interpret_tick sample_callables sample_commands (fresh\<lparr>spooled_item := PyIter [PyInt 10]\<rparr>))))
       = queue (ctx fresh)"
proof -
  have h: "hold (fresh\<lparr>spooled_item := PyIter [PyStr ''bogus'', PyInt 10]\<rparr>)
       = (Inr False, fresh\<lparr>spooled_item := PyIter [PyStr ''bogus'', PyInt 10]\<rparr>)"
    by (rule hold_no_holds) (simp_all add: fresh_def new_interpreter_def)
  have q: "\<forall>m u. queue (ctx (snd (sample_callables m u))) = queue (ctx u)"
    by (simp add: sample_callables_def ensure_program_mode_def signal_def Let_def)
  show ?thesis
    using unrecognized_raises [of "fresh\<lparr>spooled_item := PyIter [PyStr ''bogus'', PyInt 10]\<rparr>"
        "PyStr ''bogus''" "[PyInt 10]" "fresh\<lparr>spooled_item := PyIter [PyStr ''bogus'', PyInt 10]\<rparr>"
        sample_callables sample_commands] h q
    by (simp add: interpret_tick_def)
qed

lemma fetch_generate:
  assumes "queue (ctx s) = PyGenerate r # rest"
  shows "fetch_next_item_from_spooler F s =
     (None, s\<lparr>ctx := signal ((ctx s)\<lparr>queue := rest\<rparr>) (PyStr ''spooler;queue'') [PyInt (int (length rest))],
       rapid := opt_rapid_between (ctx s), jog := opt_jog_mode (ctx s), spooled_item := r\<rparr>)"
  using assms
  by (simp add: fetch_next_item_from_spooler_def peek_def pop_def signal_def Let_def)

lemma fetch_queue:
  assumes "\<forall>m u. queue (ctx (snd (F m u))) = queue (ctx u)"
    and "queue (ctx s) = j # rest'" "j \<noteq> PyNone"
  shows "queue (ctx (snd (fetch_next_item_from_spooler F s))) = rest'"
proof -
  have qF: "queue (ctx u') = queue (ctx u)" if "F m u = (x, u')" for m u x u'
    using assms(1) [rule_format, of m u] that by simp
  show ?thesis
    using assms(2,3)
    by (auto simp: fetch_next_item_from_spooler_def peek_def pop_def signal_def Let_def
        split: pyval.splits prod.splits sum.splits exc.splits dest!: qF)
qed

lemma fetch_queue_plain:
  assumes "queue (ctx s) = j # rest'" "j \<noteq> PyNone" "\<forall>m. j \<noteq> PyFunction m"
  shows "queue (ctx (snd (fetch_next_item_from_spooler F s))) = rest'"
  using assms
  by (cases j)
    (simp_all add: fetch_next_item_from_spooler_def peek_def pop_def signal_def Let_def)

lemma tick_dequeues:
  assumes "\<forall>m u. queue (ctx (snd (F m u))) = queue (ctx u)"
    and "spooled_item s = PyNone" "queue (ctx s) = j # rest'" "j \<noteq> PyNone"
  shows "queue (ctx (snd (interpret_tick F K s))) = rest'"
proof -
  obtain x s1 where f: "fetch_next_item_from_spooler F s = (x, s1)"
    by (cases "fetch_next_item_from_spooler F s")
  with fetch_queue [OF assms(1,3,4)] have q1: "queue (ctx s1) = rest'" by simp
  show ?thesis
  proof (cases x)
    case (Some e)
    with f q1 assms(2) show ?thesis by (simp add: interpret_tick_def)
  next
    case None
    show ?thesis
    proof (cases "spooled_item s1 = PyNone")
      case True
      with f None q1 assms(2) show ?thesis by (simp add: interpret_tick_def)
    next
      case False
      with f None q1 assms(2) show ?thesis
        by (simp add: interpret_tick_def process_queue [OF assms(1)])
    qed
  qed
qed

lemma tick_iter:
  assumes "spooled_item s = PyIter (e # todo)" "holds s = []" "temp_holds s = []"
    and "command F K (s\<lparr>spooled_item := PyIter todo\<rparr>) e [] = (Inr True, s')"
  shows "interpret_tick F K s = (None, s')"
proof -
  have c1: "command F K s (PyIter (e # todo)) [] = (Inr False, s)"
    by (rule command_not_int) simp_all
  show ?thesis
    using assms c1 hold_no_holds [OF assms(2,3)]
    by (simp add: interpret_tick_def process_spooled_item_def plotplanner_process_def)
qed

lemma tick_exhausted:
  assumes "spooled_item s = PyIter []" "holds s = []" "temp_holds s = []"
  shows "interpret_tick F K s = (None, s\<lparr>spooled_item := PyNone\<rparr>)"
proof -
  have c1: "command F K s (PyIter []) [] = (Inr False, s)"
    by (rule command_not_int) simp_all
  show ?thesis
    using assms c1 hold_no_holds [OF assms(2,3)]
    by (simp add: interpret_tick_def process_spooled_item_def plotplanner_process_def)
qed

lemma command_set_speed:
  assumes "inj K"
  shows "command F K s (PyTuple [PyInt (K COMMAND_SET_SPEED), v]) [] = (Inr True, set_speed s v)"
  using assms by (simp add: command_def command_int_def dispatch_def inj_eq item_def)

lemma command_move:
  assumes "inj K"
  shows "command F K s (PyTuple [PyInt (K COMMAND_MOVE), x, y]) [] = (Inr True, move s x y)"
  using assms by (simp add: command_def command_int_def dispatch_def inj_eq unpack2_def)

section \<open>Draining a lazy sequence\<close>

lemma ticks_Suc_ok:
  "ticks F K n s = (None, s') \<Longrightarrow> ticks F K (Suc n) s = interpret_tick F K s'"
  by simp

text \<open>
  C7. From an empty in-flight slot, no holds and a queued lazy sequence that yields
  \<open>SET_SPEED(10)\<close>, then \<open>MOVE(5, 5)\<close>, then stops: no tick raises; after tick 1
  \<open>settings.speed\<close> is 10; after tick 2 the position is (5, 5); after tick 3 the in-flight
  slot is empty, so the fetch of tick 4 dequeues the next job of the queue; after tick 4
  that job is the only one missing from the queue, unless a callable that the job runs
  changes the queue.
\<close>

theorem drain_two_commands:
  assumes "inj K"
    and "spooled_item s = PyNone" and "holds s = []" and "temp_holds s = []"
    and "queue (ctx s) =
           PyGenerate (PyIter [PyTuple [PyInt (K COMMAND_SET_SPEED), PyInt 10],
                               PyTuple [PyInt (K COMMAND_MOVE), PyInt 5, PyInt 5]]) # rest"
  shows "fst (ticks F K 1 s) = None
       \<and> speed (settings (snd (ticks F K 1 s))) = PyInt 10
       \<and> fst (ticks F K 2 s) = None
       \<and> current_x (ctx (snd (ticks F K 2 s))) = PyInt 5
       \<and> current_y (ctx (snd (ticks F K 2 s))) = PyInt 5
       \<and> fst (ticks F K 3 s) = None
       \<and> spooled_item (snd (ticks F K 3 s)) = PyNone
       \<and> queue (ctx (snd (ticks F K 3 s))) = rest
       \<and> (\<forall>j rest'. rest = j # rest' \<and> j \<noteq> PyNone \<and> (\<forall>m. j \<noteq> PyFunction m) \<longrightarrow>
             queue (ctx (snd (fetch_next_item_from_spooler F (snd (ticks F K 3 s))))) = rest')
       \<and> (\<forall>j rest'. rest = j # rest' \<and> j \<noteq> PyNone
             \<and> (\<forall>m u. queue (ctx (snd (F m u))) = queue (ctx u)) \<longrightarrow>
             queue (ctx (snd (ticks F K 4 s))) = rest')"
proof -
  let ?c1 = "PyTuple [PyInt (K COMMAND_SET_SPEED), PyInt 10]"
  let ?c2 = "PyTuple [PyInt (K COMMAND_MOVE), PyInt 5, PyInt 5]"
  define a where "a = s\<lparr>ctx := signal ((ctx s)\<lparr>queue := rest\<rparr>) (PyStr ''spooler;queue'') [PyInt (int (length rest))],
       rapid := opt_rapid_between (ctx s), jog := opt_jog_mode (ctx s), spooled_item := PyIter [?c1, ?c2]\<rparr>"
  have f: "fetch_next_item_from_spooler F s = (None, a)"
    unfolding a_def using assms(5) by (rule fetch_generate)
  have a_sp: "spooled_item a = PyIter [?c1, ?c2]" and a_h: "holds a = []" "temp_holds a = []"
    and a_q: "queue (ctx a) = rest"
    using assms(3,4) by (simp_all add: a_def signal_def)
  define s1 where "s1 = set_speed (a\<lparr>spooled_item := PyIter [?c2]\<rparr>) (PyInt 10)"
  define s2 where "s2 = move (s1\<lparr>spooled_item := PyIter []\<rparr>) (PyInt 5) (PyInt 5)"
  define s3 where "s3 = s2\<lparr>spooled_item := PyNone\<rparr>"
  have "interpret_tick F K s = interpret_tick F K a"
    using assms(2) a_sp f by (simp add: interpret_tick_def)
  also have "\<dots> = (None, s1)"
    unfolding s1_def using a_sp a_h command_set_speed [OF assms(1)] by (rule tick_iter)
  finally have t1: "ticks F K 1 s = (None, s1)" by simp
  have s1_sp: "spooled_item s1 = PyIter [?c2]" and s1_h: "holds s1 = []" "temp_holds s1 = []"
    and s1_q: "queue (ctx s1) = rest" and s1_speed: "speed (settings s1) = PyInt 10"
    using a_h a_q by (simp_all add: s1_def set_speed_def)
  have "interpret_tick F K s1 = (None, s2)"
    unfolding s2_def using s1_sp s1_h command_move [OF assms(1)] by (rule tick_iter)
  with t1 have t2: "ticks F K 2 s = (None, s2)"
    by (simp add: numeral_2_eq_2)
  have s2_sp: "spooled_item s2 = PyIter []" and s2_h: "holds s2 = []" "temp_holds s2 = []"
    and s2_q: "queue (ctx s2) = rest"
    and s2_xy: "current_x (ctx s2) = PyInt 5" "current_y (ctx s2) = PyInt 5"
    using s1_h s1_q by (simp_all add: s2_def move_def)
  have "interpret_tick F K s2 = (None, s3)"
    unfolding s3_def using s2_sp s2_h by (rule tick_exhausted)
  with t2 have t3: "ticks F K 3 s = (None, s3)"
    by (simp add: numeral_3_eq_3 numeral_2_eq_2)
  have s3_sp: "spooled_item s3 = PyNone" and s3_q: "queue (ctx s3) = rest"
    using s2_q by (simp_all add: s3_def)
  have t4: "ticks F K 4 s = interpret_tick F K s3"
  proof -
    have "(4::nat) = Suc 3" by simp
    then show ?thesis using t3 by (simp only: ticks_Suc_ok)
  qed
  have deq: "queue (ctx (snd (ticks F K 4 s))) = rest'"
    if "rest = j # rest'" "j \<noteq> PyNone" "\<forall>m u. queue (ctx (snd (F m u))) = queue (ctx u)"
    for j rest'
    unfolding t4 using s3_sp s3_q that by (simp add: tick_dequeues)
  have fet: "queue (ctx (snd (fetch_next_item_from_spooler F (snd (ticks F K 3 s))))) = rest'"
    if "rest = j # rest'" "j \<noteq> PyNone" "\<forall>m. j \<noteq> PyFunction m" for j rest'
    unfolding t3 using s3_q that by (simp add: fetch_queue_plain)
  show ?thesis
    using t1 t2 t3 s1_speed s2_xy s3_sp s3_q deq fet by simp
qed

theorem drain_two_commands_witness:
  "inj sample_commands
   \<and> spooled_item sample_loaded = PyNone \<and> holds sample_loaded = [] \<and> temp_holds sample_loaded = []
   \<and> speed (settings (snd (ticks sample_callables sample_commands 1 sample_loaded))) = PyInt 10
   \<and> current_x (ctx (snd (ticks sample_callables sample_commands 2 sample_loaded))) = PyInt 5
   \<and> current_y (ctx (snd (ticks sample_callables sample_commands 2 sample_loaded))) = PyInt 5
   \<and> ticks sample_callables sample_commands 3 sample_loaded
       = (None, snd (ticks sample_callables sample_commands 3 sample_loaded))
   \<and> spooled_item (snd (ticks sample_callables sample_commands 3 sample_loaded)) = PyNone
   \<and> queue (ctx (snd (fetch_next_item_from_spooler sample_callables
         (snd (ticks sample_callables sample_commands 3 sample_loaded))))) = []
   \<and> (\<forall>m u. queue (ctx (snd (sample_callables m u))) = queue (ctx u))
   \<and> queue (ctx (snd (ticks sample_callables sample_commands 4 sample_loaded))) = []"
proof -
  have q: "queue (ctx sample_loaded) =
      PyGenerate (PyIter [PyTuple [PyInt (sample_commands COMMAND_SET_SPEED), PyInt 10],
                          PyTuple [PyInt (sample_commands COMMAND_MOVE), PyInt 5, PyInt 5]])
      # [PyInt (sample_commands COMMAND_HOME)]"
    by (simp add: sample_loaded_def)
  have h: "spooled_item sample_loaded = PyNone" "holds sample_loaded = []" "temp_holds sample_loaded = []"
    by (simp_all add: sample_loaded_def fresh_def new_interpreter_def)
  have c: "\<forall>m u. queue (ctx (snd (sample_callables m u))) = queue (ctx u)"
    by (simp add: sample_callables_def ensure_program_mode_def signal_def Let_def)
  show ?thesis
    using drain_two_commands [OF sample_commands_inj h q, of sample_callables] h sample_commands_inj c
    by (simp add: prod_eq_iff)
qed

section \<open>Temporary holds\<close>














































end
